theory Spec2Isabelle
  imports Complex_Main "HOL-Library.Sublist"
begin

section \<open>JavaScript values as the service sees them\<close>

text \<open>
  The responses of the ERP are parsed JSON, typed \<^verbatim>\<open>any\<close> in
  \<^verbatim>\<open>src/lib/analise-service.ts\<close>. A value is one of the JSON shapes, or
  \<^verbatim>\<open>undefined\<close> (what reading a missing property gives). Numbers are the
  integers; a fractional number is outside this model. An object is the list of its
  own properties in insertion order, with distinct keys.
\<close>

datatype jsval =
    JUndefined
  | JNull
  | JBool bool
  | JNum int
  | JStr string
  | JArr "jsval list"
  | JObj "(string \<times> jsval) list"

text \<open>
  What the code throws. \<^verbatim>\<open>ErroAxios code status message\<close> is a rejected axios
  call: \<^verbatim>\<open>erro.code\<close>, \<^verbatim>\<open>erro.response?.status\<close> and
  \<^verbatim>\<open>erro.message\<close>. \<^verbatim>\<open>Erro\<close> is \<^verbatim>\<open>new Error(message)\<close> and
  \<^verbatim>\<open>ErroTipo\<close> the TypeError of the runtime.
\<close>

datatype erro =
    Erro string
  | ErroTipo string
  | ErroAxios "string option" "nat option" string

fun codigo :: "erro \<Rightarrow> string option" where
  "codigo (ErroAxios c s m) = c"
| "codigo (Erro m) = None"
| "codigo (ErroTipo m) = None"

fun status :: "erro \<Rightarrow> nat option" where
  "status (ErroAxios c s m) = s"
| "status (Erro m) = None"
| "status (ErroTipo m) = None"

fun mensagem :: "erro \<Rightarrow> string" where
  "mensagem (ErroAxios c s m) = m"
| "mensagem (Erro m) = m"
| "mensagem (ErroTipo m) = m"

text \<open>Truthiness, as \<^verbatim>\<open>if (x)\<close>, \<^verbatim>\<open>!x\<close> and \<^verbatim>\<open>x ? a : b\<close> test it.\<close>

fun truthy :: "jsval \<Rightarrow> bool" where
  "truthy JUndefined = False"
| "truthy JNull = False"
| "truthy (JBool b) = b"
| "truthy (JNum n) = (n \<noteq> 0)"
| "truthy (JStr s) = (s \<noteq> [])"
| "truthy (JArr xs) = True"
| "truthy (JObj kvs) = True"

text \<open>
  Reading a property, \<^verbatim>\<open>v.k\<close> or \<^verbatim>\<open>v[k]\<close>: a TypeError on
  \<^verbatim>\<open>null\<close> and \<^verbatim>\<open>undefined\<close>, the member of an object, and
  \<^verbatim>\<open>undefined\<close> where there is none. The keys this service reads
  (\<^verbatim>\<open>entity\<close>, \<^verbatim>\<open>metadata\<close>, \<^verbatim>\<open>fields\<close>, \<^verbatim>\<open>field\<close>,
  \<^verbatim>\<open>name\<close>, \<^verbatim>\<open>$\<close>, \<^verbatim>\<open>f0\<close>, \<^verbatim>\<open>f1\<close>, ...) are no property of a
  string, number, boolean or array.
\<close>

fun obter :: "jsval \<Rightarrow> string \<Rightarrow> erro + jsval" where
  "obter JUndefined k = Inl (ErroTipo (''Cannot read properties of undefined (reading '' @ k @ '')''))"
| "obter JNull k = Inl (ErroTipo (''Cannot read properties of null (reading '' @ k @ '')''))"
| "obter (JObj kvs) k = Inr (case map_of kvs k of None \<Rightarrow> JUndefined | Some v \<Rightarrow> v)"
| "obter v k = Inr JUndefined"

text \<open>Optional chaining, \<^verbatim>\<open>v?.k\<close>.\<close>

fun obterOpc :: "jsval \<Rightarrow> string \<Rightarrow> jsval" where
  "obterOpc JUndefined k = JUndefined"
| "obterOpc JNull k = JUndefined"
| "obterOpc (JObj kvs) k = (case map_of kvs k of None \<Rightarrow> JUndefined | Some v \<Rightarrow> v)"
| "obterOpc v k = JUndefined"

text \<open>Decimal text of a number, as a template literal and \<^verbatim>\<open>join\<close> print it.\<close>

definition digito :: "nat \<Rightarrow> char" where
  "digito d = char_of (48 + d)"

fun decimalNat :: "nat \<Rightarrow> string" where
  "decimalNat n = (if n < 10 then [digito n] else decimalNat (n div 10) @ [digito (n mod 10)])"

definition decimal :: "int \<Rightarrow> string" where
  "decimal i = (if i < 0 then CHR ''-'' # decimalNat (nat (- i)) else decimalNat (nat i))"

fun intercalar :: "string \<Rightarrow> string list \<Rightarrow> string" where
  "intercalar sep [] = []"
| "intercalar sep [x] = x"
| "intercalar sep (x # y # ys) = x @ sep @ intercalar sep (y # ys)"

text \<open>
  The text of a value whose conversion does not throw, as \<^verbatim>\<open>join\<close> (line 435) and
  \<^verbatim>\<open>parseFloat\<close> (line 496) make it: an array prints as its elements joined by
  commas, \<^verbatim>\<open>null\<close> and \<^verbatim>\<open>undefined\<close> elements as the empty text, and an object
  prints as \<^verbatim>\<open>[object Object]\<close>. The one conversion that throws, that of an object
  with a member \<^verbatim>\<open>toString\<close> of its own, is in \<^verbatim>\<open>paraChave\<close> below; such an
  object as a lead code or as the value of an order is outside the model of these two
  lines.
\<close>

fun paraTexto :: "jsval \<Rightarrow> string" where
  "paraTexto JUndefined = ''undefined''"
| "paraTexto JNull = ''null''"
| "paraTexto (JBool b) = (if b then ''true'' else ''false'')"
| "paraTexto (JNum n) = decimal n"
| "paraTexto (JStr s) = s"
| "paraTexto (JArr xs) =
     intercalar '','' (map (\<lambda>x. if x = JUndefined \<or> x = JNull then [] else paraTexto x) xs)"
| "paraTexto (JObj kvs) = ''[object Object]''"

definition juntar :: "jsval list \<Rightarrow> string" where
  "juntar xs = intercalar '','' (map (\<lambda>x. if x = JUndefined \<or> x = JNull then [] else paraTexto x) xs)"

text \<open>
  The conversion of a value to a property key, \<^verbatim>\<open>obj[v]\<close>. A parsed JSON object has
  no function among its members, so an object converts through
  \<^verbatim>\<open>Object.prototype.toString\<close> unless a member \<^verbatim>\<open>toString\<close> of its own hides
  it; then no conversion is left (\<^verbatim>\<open>valueOf\<close> gives the object back) and the runtime
  throws a TypeError. An array converts through \<^verbatim>\<open>join\<close>, which converts its
  elements the same way.
\<close>

fun paraChave :: "jsval \<Rightarrow> erro + string"
  and paraChaves :: "jsval list \<Rightarrow> erro + string list" where
  "paraChave (JArr xs) =
     (case paraChaves xs of Inl erro \<Rightarrow> Inl erro | Inr ps \<Rightarrow> Inr (intercalar '','' ps))"
| "paraChave (JObj kvs) =
     (if ''toString'' \<in> set (map fst kvs)
      then Inl (ErroTipo ''Cannot convert object to primitive value'')
      else Inr ''[object Object]'')"
| "paraChave JUndefined = Inr ''undefined''"
| "paraChave JNull = Inr ''null''"
| "paraChave (JBool b) = Inr (if b then ''true'' else ''false'')"
| "paraChave (JNum n) = Inr (decimal n)"
| "paraChave (JStr s) = Inr s"
| "paraChaves [] = Inr []"
| "paraChaves (x # xs) =
     (case (if x = JUndefined \<or> x = JNull then Inr [] else paraChave x) of
        Inl erro \<Rightarrow> Inl erro
      | Inr p \<Rightarrow> (case paraChaves xs of Inl erro \<Rightarrow> Inl erro | Inr ps \<Rightarrow> Inr (p # ps)))"

text \<open>
  \<^verbatim>\<open>obj[k] = v\<close> on an object made by \<^verbatim>\<open>{}\<close>: an existing property keeps its
  place and takes the new value, a new one goes last. The key \<^verbatim>\<open>__proto__\<close> is the
  prototype setter and makes no property of the object (the members that a record
  would inherit from a prototype set this way are outside this model). The list is in
  order of insertion (an enumeration in JavaScript would put keys that are array indices
  first).
\<close>

fun substituir :: "string \<Rightarrow> jsval \<Rightarrow> (string \<times> jsval) list \<Rightarrow> (string \<times> jsval) list" where
  "substituir k v [] = [(k, v)]"
| "substituir k v ((k', v') # kvs) =
     (if k' = k then (k, v) # kvs else (k', v') # substituir k v kvs)"

definition atribuir :: "(string \<times> jsval) list \<Rightarrow> string \<Rightarrow> jsval \<Rightarrow> (string \<times> jsval) list" where
  "atribuir obj k v = (if k = ''__proto__'' then obj else substituir k v obj)"

section \<open>mapearEntidades\<close>

text \<open>
  Sequencing of steps that may throw: the first throw ends the computation, as an
  exception does.
\<close>

definition entao :: "erro + 'a \<Rightarrow> ('a \<Rightarrow> erro + 'b) \<Rightarrow> erro + 'b" where
  "entao m f = (case m of Inl e \<Rightarrow> Inl e | Inr x \<Rightarrow> f x)"

text \<open>\<^verbatim>\<open>xs.map(f)\<close> with a callback that may throw.\<close>

fun mapear :: "('a \<Rightarrow> erro + 'b) \<Rightarrow> 'a list \<Rightarrow> erro + 'b list" where
  "mapear f [] = Inr []"
| "mapear f (x # xs) = entao (f x) (\<lambda>y. entao (mapear f xs) (\<lambda>ys. Inr (y # ys)))"

text \<open>
  \<^verbatim>\<open>field.map((f) => f.name)\<close> of line 148: only an array has \<^verbatim>\<open>map\<close>; on any
  other value the call is a TypeError.
\<close>

fun nomesDosCampos :: "jsval \<Rightarrow> erro + jsval list" where
  "nomesDosCampos (JArr fs) = mapear (\<lambda>f. obter f ''name'') fs"
| "nomesDosCampos JUndefined = Inl (ErroTipo ''Cannot read properties of undefined (reading map)'')"
| "nomesDosCampos JNull = Inl (ErroTipo ''Cannot read properties of null (reading map)'')"
| "nomesDosCampos v = Inl (ErroTipo ''entities.metadata.fields.field.map is not a function'')"

text \<open>
  The loop of lines 154-160 for one entity: \<^verbatim>\<open>i\<close> is the index of the head of the
  remaining field names, \<^verbatim>\<open>cleanObject\<close> the record built so far. At line 158 the
  slot is truthy, so reading its member \<^verbatim>\<open>$\<close> cannot throw; the field name is
  converted to a property key, which can.
\<close>

fun preencher :: "jsval list \<Rightarrow> nat \<Rightarrow> jsval \<Rightarrow> (string \<times> jsval) list \<Rightarrow> erro + (string \<times> jsval) list" where
  "preencher [] i rawEntity cleanObject = Inr cleanObject"
| "preencher (fieldName # resto) i rawEntity cleanObject =
     entao (obter rawEntity (''f'' @ decimalNat i)) (\<lambda>slot.
       if truthy slot then
         entao (obter slot ''$'') (\<lambda>v.
           entao (paraChave fieldName) (\<lambda>chave.
             preencher resto (Suc i) rawEntity (atribuir cleanObject chave v)))
       else preencher resto (Suc i) rawEntity cleanObject)"

definition limpar :: "jsval list \<Rightarrow> jsval \<Rightarrow> erro + jsval" where
  "limpar fieldNames rawEntity =
     entao (preencher fieldNames 0 rawEntity []) (\<lambda>cleanObject. Inr (JObj cleanObject))"

text \<open>\<^verbatim>\<open>Array.isArray(entities.entity) ? entities.entity : [entities.entity]\<close>.\<close>

fun entityArray :: "jsval \<Rightarrow> jsval list" where
  "entityArray (JArr es) = es"
| "entityArray entity = [entity]"

definition mapearEntidades :: "jsval \<Rightarrow> erro + jsval list" where
  "mapearEntidades entities =
     (if \<not> truthy entities then Inr []
      else entao (obter entities ''entity'') (\<lambda>entity.
        if \<not> truthy entity then Inr []
        else entao (obter entities ''metadata'') (\<lambda>metadata.
          entao (obter metadata ''fields'') (\<lambda>fields.
            entao (obter fields ''field'') (\<lambda>field.
              entao (nomesDosCampos field) (\<lambda>fieldNames.
                mapear (limpar fieldNames) (entityArray entity)))))))"

section \<open>The world outside the service\<close>

text \<open>
  One query body, the \<^verbatim>\<open>requestBody.dataSet\<close> of a payload: the members that differ
  between the payloads of \<^verbatim>\<open>buscarDadosAnalise\<close> (\<^verbatim>\<open>offsetPage: null\<close> and
  \<^verbatim>\<open>disableRowsLimit: true\<close> are the same in all of them). \<^verbatim>\<open>fieldset\<close> is
  \<^verbatim>\<open>entity.fieldset.list\<close>, \<^verbatim>\<open>criteria\<close> is \<^verbatim>\<open>criteria.expression.$\<close>,
  \<^verbatim>\<open>ordering\<close> is \<^verbatim>\<open>ordering.expression.$\<close> where the payload has one.
\<close>

record consulta =
  rootEntity :: string
  includePresentationFields :: string
  fieldset :: string
  criteria :: string
  ordering :: "string option"

text \<open>
  The two HTTP calls: the login POST (its headers are constants of the process), and
  the POST of a query to a URL with the bearer token. The request records the token as
  the login gave it; the header of line 105 is the text \<^verbatim>\<open>Bearer\<close> followed by the
  text of the token, and a token that has no text (an object with a member
  \<^verbatim>\<open>toString\<close> of its own) is outside this model.
\<close>

datatype requisicao =
    ReqLogin
  | ReqConsulta string jsval consulta

text \<open>What an axios call gives: \<^verbatim>\<open>resposta.data\<close>, or the rejection.\<close>

datatype desfecho =
    Resposta jsval
  | Falha erro

text \<open>What the service does that can be seen from outside, in order.\<close>

datatype evento =
    Enviou requisicao
  | Esperou nat

record FiltroAnalise =
  dataInicio :: string
  dataFim :: string

record DadosAnalise =
  leads :: "jsval list"
  produtosLeads :: "jsval list"
  estagiosFunis :: "jsval list"
  funis :: "jsval list"
  atividades :: "jsval list"
  pedidos :: "jsval list"
  produtos :: "jsval list"
  clientes :: "jsval list"
  financeiro :: "jsval list"
  filtro :: FiltroAnalise
  timestamp :: string

text \<open>
  The module state (\<^verbatim>\<open>cachedToken\<close>), the trace of requests sent and delays waited,
  the content of the cache (value and time to live in seconds, by key) and the number of
  readings of the clock so far. The model runs one caller at a time, so
  \<^verbatim>\<open>tokenPromise\<close> is \<^verbatim>\<open>null\<close> whenever a call starts and is no part of the
  state; the record \<^verbatim>\<open>processo\<close> below adds it for several callers.
\<close>

record mundo =
  cachedToken :: "jsval option"
  eventos :: "evento list"
  redis :: "string \<Rightarrow> (DadosAnalise \<times> nat) option"
  leituras :: nat

text \<open>
  What the service cannot decide: the outcome of a request, which may depend on
  everything that happened before it; the text \<^verbatim>\<open>new Date().toISOString()\<close> gives at
  the n-th reading of the clock; and \<^verbatim>\<open>parseFloat\<close> on a text (\<^verbatim>\<open>None\<close> is NaN).
\<close>

record ambiente =
  rede :: "evento list \<Rightarrow> requisicao \<Rightarrow> desfecho"
  relogio :: "nat \<Rightarrow> string"
  parseFloat :: "string \<Rightarrow> rat option"

definition registrar :: "evento \<Rightarrow> mundo \<Rightarrow> mundo" where
  "registrar ev w = w\<lparr>eventos := eventos w @ [ev]\<rparr>"

text \<open>\<^verbatim>\<open>await new Promise(resolve => setTimeout(resolve, ms))\<close>.\<close>

definition esperar :: "nat \<Rightarrow> mundo \<Rightarrow> mundo" where
  "esperar ms w = registrar (Esperou ms) w"

text \<open>An axios call: the request goes on the trace, the network decides the outcome.\<close>

definition enviar :: "ambiente \<Rightarrow> requisicao \<Rightarrow> mundo \<Rightarrow> desfecho \<times> mundo" where
  "enviar a req w = (rede a (eventos w) req, registrar (Enviou req) w)"

section \<open>obterToken\<close>

text \<open>The accented letters of the messages, as UTF-8 bytes.\<close>

definition a_til :: string where
  "a_til = [CHR 0xC3, CHR 0xA3]"

definition c_cedilha :: string where
  "c_cedilha = [CHR 0xC3, CHR 0xA7]"

definition msgTokenAusente :: string where
  "msgTokenAusente = ''Token n'' @ a_til @ ''o encontrado na resposta de login.''"

definition msgFalhaAutenticacao :: string where
  "msgFalhaAutenticacao = ''Falha na autentica'' @ c_cedilha @ a_til @ ''o Sankhya: ''"

definition msgSessaoExpirada :: string where
  "msgSessaoExpirada = ''Sess'' @ a_til @ ''o expirada. Tente novamente.''"

text \<open>\<^verbatim>\<open>resposta.data.bearerToken || resposta.data.token\<close>, then the check of line 60.\<close>

definition tokenDaResposta :: "jsval \<Rightarrow> erro + jsval" where
  "tokenDaResposta dados =
     entao (obter dados ''bearerToken'') (\<lambda>bearerToken.
       entao (if truthy bearerToken then Inr bearerToken else obter dados ''token'') (\<lambda>token.
         if \<not> truthy token then Inl (Erro msgTokenAusente) else Inr token))"

text \<open>
  The \<^verbatim>\<open>try\<close> block of lines 51-66: one login request; a token found is stored in
  \<^verbatim>\<open>cachedToken\<close>.
\<close>

definition tentarLogin :: "ambiente \<Rightarrow> mundo \<Rightarrow> (erro + jsval) \<times> mundo" where
  "tentarLogin a w =
     (case enviar a ReqLogin w of
        (Falha erro, w1) \<Rightarrow> (Inl erro, w1)
      | (Resposta dados, w1) \<Rightarrow>
          (case tokenDaResposta dados of
             Inl erro \<Rightarrow> (Inl erro, w1)
           | Inr token \<Rightarrow> (Inr token, w1\<lparr>cachedToken := Some token\<rparr>)))"

text \<open>Line 69: \<^verbatim>\<open>erro.code === 'ECONNABORTED' || erro.response?.status === 500\<close>.\<close>

definition repeteLogin :: "erro \<Rightarrow> bool" where
  "repeteLogin erro = (codigo erro = Some ''ECONNABORTED'' \<or> status erro = Some 500)"

definition erroDeAutenticacao :: "erro \<Rightarrow> erro" where
  "erroDeAutenticacao erro =
     Erro (msgFalhaAutenticacao @
       (if codigo erro = Some ''ECONNABORTED'' then ''Timeout ao conectar com Sankhya''
        else mensagem erro))"

function obterToken :: "ambiente \<Rightarrow> nat \<Rightarrow> mundo \<Rightarrow> (erro + jsval) \<times> mundo" where
  "obterToken a retryCount w =
     (case cachedToken w of
        Some token \<Rightarrow> (Inr token, w)
      | None \<Rightarrow>
          (case tentarLogin a w of
             (Inr token, w1) \<Rightarrow> (Inr token, w1)
           | (Inl erro, w1) \<Rightarrow>
               if repeteLogin erro \<and> retryCount < 3
               then obterToken a (retryCount + 1) (esperar (2000 * (retryCount + 1)) w1)
               else (Inl (erroDeAutenticacao erro), w1\<lparr>cachedToken := None\<rparr>)))"
  by pat_completeness auto
termination
  by (relation "measure (\<lambda>(a, retryCount, w). 3 - retryCount)") auto

declare obterToken.simps [simp del]

section \<open>fazerRequisicaoAutenticada\<close>

text \<open>The \<^verbatim>\<open>try\<close> block of lines 98-112: get a token, send the query with it.\<close>

definition tentarRequisicao :: "ambiente \<Rightarrow> string \<Rightarrow> consulta \<Rightarrow> mundo \<Rightarrow> (erro + jsval) \<times> mundo" where
  "tentarRequisicao a fullUrl data w =
     (case obterToken a 0 w of
        (Inl erro, w1) \<Rightarrow> (Inl erro, w1)
      | (Inr token, w1) \<Rightarrow>
          (case enviar a (ReqConsulta fullUrl token data) w1 of
             (Falha erro, w2) \<Rightarrow> (Inl erro, w2)
           | (Resposta dados, w2) \<Rightarrow> (Inr dados, w2)))"

text \<open>Line 115: the response has status 401 or 403.\<close>

definition naoAutorizado :: "erro \<Rightarrow> bool" where
  "naoAutorizado erro = (status erro = Some 401 \<or> status erro = Some 403)"

text \<open>Line 128: \<^verbatim>\<open>erro.code === 'ECONNABORTED' || erro.response?.status >= 500\<close>.\<close>

definition repeteRequisicao :: "erro \<Rightarrow> bool" where
  "repeteRequisicao erro =
     (codigo erro = Some ''ECONNABORTED'' \<or> (case status erro of None \<Rightarrow> False | Some s \<Rightarrow> 500 \<le> s))"

function fazerRequisicaoAutenticada ::
  "ambiente \<Rightarrow> string \<Rightarrow> consulta \<Rightarrow> nat \<Rightarrow> mundo \<Rightarrow> (erro + jsval) \<times> mundo" where
  "fazerRequisicaoAutenticada a fullUrl data retryCount w =
     (case tentarRequisicao a fullUrl data w of
        (Inr dados, w1) \<Rightarrow> (Inr dados, w1)
      | (Inl erro, w1) \<Rightarrow>
          if naoAutorizado erro then
            (if retryCount < 1
             then fazerRequisicaoAutenticada a fullUrl data (retryCount + 1)
                    (esperar 500 (w1\<lparr>cachedToken := None\<rparr>))
             else (Inl (Erro msgSessaoExpirada), w1\<lparr>cachedToken := None\<rparr>))
          else if repeteRequisicao erro \<and> retryCount < 2
          then fazerRequisicaoAutenticada a fullUrl data (retryCount + 1)
                 (esperar (1000 * (retryCount + 1)) w1)
          else (Inl erro, w1))"
  by pat_completeness auto
termination
  by (relation "measure (\<lambda>(a, fullUrl, data, retryCount, w). 2 - retryCount)") auto

declare fazerRequisicaoAutenticada.simps [simp del]

section \<open>buscarDadosAnalise\<close>

definition URL_CONSULTA_SERVICO :: string where
  "URL_CONSULTA_SERVICO =
     ''https://api.sandbox.sankhya.com.br/gateway/v1/mge/service.sbr?serviceName=CRUDServiceProvider.loadRecords&outputType=json''"

text \<open>\<^verbatim>\<open>s.split(c)\<close> for a separator of one character.\<close>

fun dividir :: "char \<Rightarrow> string \<Rightarrow> string list" where
  "dividir sep [] = [[]]"
| "dividir sep (c # cs) =
     (if c = sep then [] # dividir sep cs
      else (case dividir sep cs of [] \<Rightarrow> [[c]] | p # ps \<Rightarrow> (c # p) # ps))"

text \<open>
  A variable of the destructuring \<^verbatim>\<open>[ano, mes, dia] = ...\<close> inside the template
  literal: a missing part is \<^verbatim>\<open>undefined\<close> and prints as such.
\<close>

definition parte :: "nat \<Rightarrow> string list \<Rightarrow> string" where
  "parte i ps = (if i < length ps then ps ! i else ''undefined'')"

definition formatarDataParaSankhya :: "string \<Rightarrow> string" where
  "formatarDataParaSankhya dataISO =
     (let ps = dividir (CHR ''-'') dataISO
      in parte 2 ps @ ''/'' @ parte 1 ps @ ''/'' @ parte 0 ps)"

text \<open>A text between single quotes, as the criteria of the queries write it.\<close>

definition entreAspas :: "string \<Rightarrow> string" where
  "entreAspas s = [CHR 0x27] @ s @ [CHR 0x27]"

definition cacheKey :: "FiltroAnalise \<Rightarrow> int \<Rightarrow> string" where
  "cacheKey f userId = ''analise:'' @ decimal userId @ '':'' @ dataInicio f @ '':'' @ dataFim f"

text \<open>Lines 188-191.\<close>

definition criteriaLeads :: "FiltroAnalise \<Rightarrow> int \<Rightarrow> bool \<Rightarrow> string" where
  "criteriaLeads f userId isAdmin =
     (''DATA_CRIACAO BETWEEN '' @ entreAspas (formatarDataParaSankhya (dataInicio f))
        @ '' AND '' @ entreAspas (formatarDataParaSankhya (dataFim f))
        @ '' AND ATIVO = '' @ entreAspas ''S'')
     @ (if \<not> isAdmin then '' AND CODUSUARIO = '' @ decimal userId else [])"

definition leadsPayload :: "FiltroAnalise \<Rightarrow> int \<Rightarrow> bool \<Rightarrow> consulta" where
  "leadsPayload f userId isAdmin =
     \<lparr>rootEntity = ''AD_LEADS'',
      includePresentationFields = ''S'',
      fieldset = ''CODLEAD, NOME, DESCRICAO, VALOR, CODESTAGIO, DATA_VENCIMENTO, TIPO_TAG, COR_TAG, CODPARC, CODFUNIL, CODUSUARIO, ATIVO, DATA_CRIACAO, DATA_ATUALIZACAO, STATUS_LEAD, MOTIVO_PERDA, DATA_CONCLUSAO'',
      criteria = criteriaLeads f userId isAdmin,
      ordering = None\<rparr>"

definition atividadesPayload :: "FiltroAnalise \<Rightarrow> consulta" where
  "atividadesPayload f =
     \<lparr>rootEntity = ''AD_ADLEADSATIVIDADES'',
      includePresentationFields = ''S'',
      fieldset = ''CODATIVIDADE, CODLEAD, TIPO, DESCRICAO, DATA_HORA, DATA_INICIO, DATA_FIM, CODUSUARIO, DADOS_COMPLEMENTARES, COR, ORDEM, ATIVO, STATUS'',
      criteria = ''ATIVO = '' @ entreAspas ''S'' @ '' AND (DATA_HORA BETWEEN ''
        @ entreAspas (formatarDataParaSankhya (dataInicio f)) @ '' AND ''
        @ entreAspas (formatarDataParaSankhya (dataFim f)) @ '' OR DATA_HORA IS NULL)'',
      ordering = None\<rparr>"

definition funisPayload :: consulta where
  "funisPayload =
     \<lparr>rootEntity = ''AD_FUNIS'',
      includePresentationFields = ''S'',
      fieldset = ''CODFUNIL, NOME, DESCRICAO, COR, ATIVO, DATA_CRIACAO, DATA_ATUALIZACAO'',
      criteria = ''ATIVO = '' @ entreAspas ''S'',
      ordering = None\<rparr>"

definition estagiosPayload :: consulta where
  "estagiosPayload =
     \<lparr>rootEntity = ''AD_FUNISESTAGIOS'',
      includePresentationFields = ''S'',
      fieldset = ''CODESTAGIO, CODFUNIL, NOME, ORDEM, COR, ATIVO'',
      criteria = ''ATIVO = '' @ entreAspas ''S'',
      ordering = None\<rparr>"

definition pedidosPayload :: "FiltroAnalise \<Rightarrow> consulta" where
  "pedidosPayload f =
     \<lparr>rootEntity = ''CabecalhoNota'',
      includePresentationFields = ''S'',
      fieldset = ''NUNOTA, CODPARC, CODVEND, VLRNOTA, DTNEG'',
      criteria = ''TIPMOV = '' @ entreAspas ''P'' @ '' AND DTNEG BETWEEN TO_DATE(''
        @ entreAspas (formatarDataParaSankhya (dataInicio f)) @ '', '' @ entreAspas ''DD/MM/YYYY''
        @ '') AND TO_DATE('' @ entreAspas (formatarDataParaSankhya (dataFim f)) @ '', ''
        @ entreAspas ''DD/MM/YYYY'' @ '')'',
      ordering = Some ''DTNEG DESC, NUNOTA DESC''\<rparr>"

definition produtosPayload :: consulta where
  "produtosPayload =
     \<lparr>rootEntity = ''Produto'',
      includePresentationFields = ''N'',
      fieldset = ''CODPROD, DESCRPROD, ATIVO'',
      criteria = ''ATIVO = '' @ entreAspas ''S'',
      ordering = None\<rparr>"

definition clientesPayload :: consulta where
  "clientesPayload =
     \<lparr>rootEntity = ''Parceiro'',
      includePresentationFields = ''N'',
      fieldset = ''CODPARC, NOMEPARC, CGC_CPF, CLIENTE, ATIVO'',
      criteria = ''CLIENTE = '' @ entreAspas ''S'' @ '' AND ATIVO = '' @ entreAspas ''S'',
      ordering = None\<rparr>"

text \<open>Lines 435-453: \<^verbatim>\<open>leads.map(l => l.CODLEAD).join(',')\<close> goes into the criteria.\<close>

definition produtosLeadsPayload :: "string \<Rightarrow> consulta" where
  "produtosLeadsPayload codLeadsStr =
     \<lparr>rootEntity = ''AD_ADLEADSPRODUTOS'',
      includePresentationFields = ''S'',
      fieldset = ''CODITEM, CODLEAD, CODPROD, DESCRPROD, QUANTIDADE, VLRUNIT, VLRTOTAL, ATIVO, DATA_INCLUSAO'',
      criteria = ''CODLEAD IN ('' @ codLeadsStr @ '') AND ATIVO = '' @ entreAspas ''S'',
      ordering = None\<rparr>"

text \<open>
  A query whose failure is caught:
  \<^verbatim>\<open>await fazerRequisicaoAutenticada(url, payload).catch(err => { ...; return null; })\<close>.
\<close>

definition consultarOuNulo :: "ambiente \<Rightarrow> consulta \<Rightarrow> mundo \<Rightarrow> jsval \<times> mundo" where
  "consultarOuNulo a payload w =
     (case fazerRequisicaoAutenticada a URL_CONSULTA_SERVICO payload 0 w of
        (Inl err, w1) \<Rightarrow> (JNull, w1)
      | (Inr dados, w1) \<Rightarrow> (dados, w1))"

text \<open>
  \<^verbatim>\<open>res?.responseBody?.entities ? mapearEntidades(res.responseBody.entities) : []\<close>
  of lines 411-417 and 456.
\<close>

definition entidadesDe :: "jsval \<Rightarrow> erro + jsval list" where
  "entidadesDe res =
     (let entities = obterOpc (obterOpc res ''responseBody'') ''entities''
      in if truthy entities then mapearEntidades entities else Inr [])"

text \<open>
  Modelled from the spec: the cache collaborator \<^verbatim>\<open>redisCacheService\<close> of
  \<^verbatim>\<open>./redis-cache-service\<close>, which is not among the sources. The spec gives its
  interface, \<^verbatim>\<open>get(key)\<close> returning the value or absent and
  \<^verbatim>\<open>set(key, value, ttlSeconds)\<close>: a live entry is one the cache still holds, and
  \<^verbatim>\<open>get\<close> returns the value that \<^verbatim>\<open>set\<close> stored.
\<close>

definition redisGet :: "mundo \<Rightarrow> string \<Rightarrow> DadosAnalise option" where
  "redisGet w key = map_option fst (redis w key)"

definition redisSet :: "string \<Rightarrow> DadosAnalise \<Rightarrow> nat \<Rightarrow> mundo \<Rightarrow> mundo" where
  "redisSet key v ttlSeconds w = w\<lparr>redis := (redis w)(key \<mapsto> (v, ttlSeconds))\<rparr>"

text \<open>\<^verbatim>\<open>new Date().toISOString()\<close>.\<close>

definition agora :: "ambiente \<Rightarrow> mundo \<Rightarrow> string \<times> mundo" where
  "agora a w = (relogio a (leituras w), w\<lparr>leituras := leituras w + 1\<rparr>)"

text \<open>
  The members that the object returned at lines 498-521 has beyond those of
  \<^verbatim>\<open>DadosAnalise\<close>. The sum ignores the rounding of floating point.
\<close>

record Metricas =
  totalLeads :: nat
  totalAtividades :: nat
  totalPedidos :: nat
  totalProdutos :: nat
  totalClientes :: nat
  totalFinanceiro :: nat
  valorTotalPedidos :: rat
  valorTotalFinanceiro :: rat
  valorRecebido :: rat
  valorPendente :: rat

text \<open>
  What \<^verbatim>\<open>buscarDadosAnalise\<close> resolves to: the members of \<^verbatim>\<open>DadosAnalise\<close>, and
  the metrics when the object has them.
\<close>

record Retorno =
  analise :: DadosAnalise
  metricas :: "Metricas option"

text \<open>Line 496: \<^verbatim>\<open>sum + (parseFloat(p.VLRNOTA) || 0)\<close> over the orders.\<close>

definition vlrNota :: "ambiente \<Rightarrow> jsval \<Rightarrow> rat" where
  "vlrNota a p = (case parseFloat a (paraTexto (obterOpc p ''VLRNOTA'')) of None \<Rightarrow> 0 | Some x \<Rightarrow> x)"

definition somaPedidos :: "ambiente \<Rightarrow> jsval list \<Rightarrow> rat" where
  "somaPedidos a ps = foldl (\<lambda>sum p. sum + vlrNota a p) 0 ps"

text \<open>Lines 432-457: the products of the leads found; this query is not caught.\<close>

definition buscarProdutosLeads :: "ambiente \<Rightarrow> jsval list \<Rightarrow> mundo \<Rightarrow> (erro + jsval list) \<times> mundo" where
  "buscarProdutosLeads a ls w =
     (if length ls > 0 then
        (case mapear (\<lambda>l. obter l ''CODLEAD'') ls of
           Inl erro \<Rightarrow> (Inl erro, w)
         | Inr cods \<Rightarrow>
             (case fazerRequisicaoAutenticada a URL_CONSULTA_SERVICO
                     (produtosLeadsPayload (juntar cods)) 0 w of
                (Inl erro, w1) \<Rightarrow> (Inl erro, w1)
              | (Inr produtosLeadsRes, w1) \<Rightarrow> (entidadesDe produtosLeadsRes, w1)))
      else (Inr [], w))"

text \<open>Lines 464-521: build the result, store it for 30 minutes, return it with the metrics.\<close>

definition concluir ::
  "ambiente \<Rightarrow> FiltroAnalise \<Rightarrow> int \<Rightarrow> jsval list \<Rightarrow> jsval list \<Rightarrow> jsval list \<Rightarrow> jsval list \<Rightarrow>
   jsval list \<Rightarrow> jsval list \<Rightarrow> jsval list \<Rightarrow> jsval list \<Rightarrow> mundo \<Rightarrow> Retorno \<times> mundo" where
  "concluir a f userId ls pls es fs ats pds prs cls w =
     (case agora a w of (t1, w1) \<Rightarrow>
        (let resultado = \<lparr>leads = ls, produtosLeads = pls, estagiosFunis = es, funis = fs,
                          atividades = ats, pedidos = pds, produtos = prs, clientes = cls,
                          financeiro = [], filtro = f, timestamp = t1\<rparr>;
             w2 = redisSet (cacheKey f userId) resultado (30 * 60) w1
         in case agora a w2 of (t2, w3) \<Rightarrow>
              (\<lparr>analise = \<lparr>leads = leads resultado, produtosLeads = produtosLeads resultado,
                         estagiosFunis = estagiosFunis resultado, funis = funis resultado,
                         atividades = atividades resultado, pedidos = pedidos resultado,
                         produtos = produtos resultado, clientes = clientes resultado,
                         financeiro = [], filtro = f, timestamp = t2\<rparr>,
                metricas = Some
                  \<lparr>totalLeads = length (leads resultado),
                   totalAtividades = length (atividades resultado),
                   totalPedidos = length (pedidos resultado),
                   totalProdutos = length (produtos resultado),
                   totalClientes = length (clientes resultado),
                   totalFinanceiro = 0,
                   valorTotalPedidos = somaPedidos a (pedidos resultado),
                   valorTotalFinanceiro = 0,
                   valorRecebido = 0,
                   valorPendente = 0\<rparr>\<rparr>, w3)))"

text \<open>
  Lines 411-417: the seven responses mapped, in the order of the source; the first
  TypeError ends the call (the \<^verbatim>\<open>catch\<close> of line 522 throws it again).
\<close>

definition aposConsultas ::
  "ambiente \<Rightarrow> FiltroAnalise \<Rightarrow> int \<Rightarrow> jsval \<Rightarrow> jsval \<Rightarrow> jsval \<Rightarrow> jsval \<Rightarrow> jsval \<Rightarrow> jsval \<Rightarrow> jsval \<Rightarrow>
   mundo \<Rightarrow> (erro + Retorno) \<times> mundo" where
  "aposConsultas a f userId leadsRes atividadesRes funisRes estagiosRes pedidosRes produtosRes clientesRes w =
     (case entao (entidadesDe leadsRes) (\<lambda>ls.
           entao (entidadesDe atividadesRes) (\<lambda>ats.
           entao (entidadesDe funisRes) (\<lambda>fs.
           entao (entidadesDe estagiosRes) (\<lambda>es.
           entao (entidadesDe pedidosRes) (\<lambda>pds.
           entao (entidadesDe produtosRes) (\<lambda>prs.
           entao (entidadesDe clientesRes) (\<lambda>cls. Inr (ls, ats, fs, es, pds, prs, cls)))))))) of
        Inl erro \<Rightarrow> (Inl erro, w)
      | Inr (ls, ats, fs, es, pds, prs, cls) \<Rightarrow>
          (case buscarProdutosLeads a ls w of
             (Inl erro, w1) \<Rightarrow> (Inl erro, w1)
           | (Inr pls, w1) \<Rightarrow>
               (case concluir a f userId ls pls es fs ats pds prs cls w1 of
                  (r, w2) \<Rightarrow> (Inr r, w2))))"

definition buscarDadosAnalise ::
  "ambiente \<Rightarrow> FiltroAnalise \<Rightarrow> int \<Rightarrow> bool \<Rightarrow> mundo \<Rightarrow> (erro + Retorno) \<times> mundo" where
  "buscarDadosAnalise a f userId isAdmin w =
     (case redisGet w (cacheKey f userId) of
        Some cached \<Rightarrow> (Inr \<lparr>analise = cached, metricas = None\<rparr>, w)
      | None \<Rightarrow>
          (case consultarOuNulo a (leadsPayload f userId isAdmin) w of (leadsRes, w1) \<Rightarrow>
           case consultarOuNulo a (atividadesPayload f) w1 of (atividadesRes, w2) \<Rightarrow>
           case consultarOuNulo a funisPayload w2 of (funisRes, w3) \<Rightarrow>
           case consultarOuNulo a estagiosPayload w3 of (estagiosRes, w4) \<Rightarrow>
           case consultarOuNulo a (pedidosPayload f) w4 of (pedidosRes, w5) \<Rightarrow>
           case consultarOuNulo a produtosPayload w5 of (produtosRes, w6) \<Rightarrow>
           case consultarOuNulo a clientesPayload w6 of (clientesRes, w7) \<Rightarrow>
             aposConsultas a f userId leadsRes atividadesRes funisRes estagiosRes
               pedidosRes produtosRes clientesRes w7))"

section \<open>obterToken with several callers\<close>

text \<open>
  JavaScript runs one piece of code at a time, from one \<^verbatim>\<open>await\<close> to the next. An
  acquisition is one run of the async arrow function of lines 50-87. It is suspended at
  the \<^verbatim>\<open>await\<close> of line 53 (the import, before the login request is sent), of line 54
  (the login request is sent and not yet answered) or of line 71 (the delay before a
  retry), or it has ended.
\<close>

datatype suspensao = NoImport | NoLogin | NaEspera | Encerrada

record aquisicao =
  tentativa :: nat
  suspensa :: suspensao

text \<open>
  The module state with \<^verbatim>\<open>tokenPromise\<close>: the pending promise is named by the index
  of its acquisition in the list of all acquisitions started so far.
\<close>

record processo = mundo +
  tokenPromise :: "nat option"
  aquisicoes :: "aquisicao list"

text \<open>What a caller gets: the cached token, or the promise of an acquisition to await.\<close>

datatype retornoToken = Token jsval | Promessa nat

definition suspender :: "nat \<Rightarrow> suspensao \<Rightarrow> processo \<Rightarrow> processo" where
  "suspender k onde s =
     s\<lparr>aquisicoes := (aquisicoes s)[k := (aquisicoes s ! k)\<lparr>suspensa := onde\<rparr>]\<rparr>"

definition suspensaEm :: "nat \<Rightarrow> suspensao \<Rightarrow> processo \<Rightarrow> bool" where
  "suspensaEm k onde s = (k < length (aquisicoes s) \<and> suspensa (aquisicoes s ! k) = onde)"

text \<open>
  A call \<^verbatim>\<open>obterToken(retryCount)\<close> up to its return (lines 35-50 and 89): the arrow
  function starts and is suspended at its first \<^verbatim>\<open>await\<close>, and its promise is stored
  in \<^verbatim>\<open>tokenPromise\<close>.
\<close>

definition chamarObterToken :: "nat \<Rightarrow> processo \<Rightarrow> retornoToken \<times> processo" where
  "chamarObterToken retryCount s =
     (case cachedToken s of
        Some token \<Rightarrow> (Token token, s)
      | None \<Rightarrow>
          (case tokenPromise s of
             Some k \<Rightarrow> (Promessa k, s)
           | None \<Rightarrow>
               (Promessa (length (aquisicoes s)),
                s\<lparr>aquisicoes := aquisicoes s @ [\<lparr>tentativa = retryCount, suspensa = NoImport\<rparr>],
                  tokenPromise := Some (length (aquisicoes s))\<rparr>)))"

text \<open>The import of line 53 resolves: the acquisition sends the login request of line 54.\<close>

definition importResolvido :: "nat \<Rightarrow> processo \<Rightarrow> processo" where
  "importResolvido k s =
     (if suspensaEm k NoImport s
      then suspender k NoLogin (s\<lparr>eventos := eventos s @ [Enviou ReqLogin]\<rparr>)
      else s)"

text \<open>
  The login request settles with the outcome \<^verbatim>\<open>d\<close> (lines 59-86): with a token the
  acquisition stores it and ends; with a failure to retry it waits (line 71); with any
  other failure it clears the state and ends. Ending runs the \<^verbatim>\<open>finally\<close> of line 85.
\<close>

definition loginResolvido :: "nat \<Rightarrow> desfecho \<Rightarrow> processo \<Rightarrow> processo" where
  "loginResolvido k d s =
     (if suspensaEm k NoLogin s then
        (case (case d of Falha erro \<Rightarrow> Inl erro | Resposta dados \<Rightarrow> tokenDaResposta dados) of
           Inr token \<Rightarrow> suspender k Encerrada (s\<lparr>cachedToken := Some token, tokenPromise := None\<rparr>)
         | Inl erro \<Rightarrow>
             if repeteLogin erro \<and> tentativa (aquisicoes s ! k) < 3
             then suspender k NaEspera
                    (s\<lparr>eventos := eventos s @ [Esperou (2000 * (tentativa (aquisicoes s ! k) + 1))]\<rparr>)
             else suspender k Encerrada (s\<lparr>cachedToken := None, tokenPromise := None\<rparr>))
      else s)"

text \<open>
  The delay of line 71 is over (lines 72-73, then line 85): \<^verbatim>\<open>tokenPromise = null\<close>,
  the call \<^verbatim>\<open>obterToken(retryCount + 1)\<close> up to its return, and the \<^verbatim>\<open>finally\<close> of the
  acquisition that ends, which sets \<^verbatim>\<open>tokenPromise = null\<close> again.
\<close>

definition timerDisparou :: "nat \<Rightarrow> processo \<Rightarrow> processo" where
  "timerDisparou k s =
     (if suspensaEm k NaEspera s then
        (case chamarObterToken (tentativa (aquisicoes s ! k) + 1) (s\<lparr>tokenPromise := None\<rparr>) of
           (r, s1) \<Rightarrow> suspender k Encerrada (s1\<lparr>tokenPromise := None\<rparr>))
      else s)"

text \<open>
  What can happen next: a caller calls \<^verbatim>\<open>obterToken()\<close>, or a suspended acquisition
  goes on. A step that names an acquisition not suspended there changes nothing.
\<close>

datatype passo = Chamada | Import nat | Login nat desfecho | Timer nat

fun darPasso :: "passo \<Rightarrow> processo \<Rightarrow> processo" where
  "darPasso Chamada s = snd (chamarObterToken 0 s)"
| "darPasso (Import k) s = importResolvido k s"
| "darPasso (Login k d) s = loginResolvido k d s"
| "darPasso (Timer k) s = timerDisparou k s"

definition executar :: "passo list \<Rightarrow> processo \<Rightarrow> processo" where
  "executar ps s = foldl (\<lambda>s p. darPasso p s) s ps"

section \<open>What the claims speak of\<close>

subsection \<open>Shapes of a raw collection\<close>

text \<open>
  \<^verbatim>\<open>entities.metadata.fields.field\<close> read without throwing: \<^verbatim>\<open>undefined\<close> when a
  step of the path is missing.
\<close>

definition campoLista :: "jsval \<Rightarrow> jsval" where
  "campoLista entities = obterOpc (obterOpc (obterOpc entities ''metadata'') ''fields'') ''field''"

definition definido :: "jsval \<Rightarrow> bool" where
  "definido v = (v \<noteq> JNull \<and> v \<noteq> JUndefined)"

definition ehObjeto :: "jsval \<Rightarrow> bool" where
  "ehObjeto v = (case v of JObj kvs \<Rightarrow> True | _ \<Rightarrow> False)"

definition camposDe :: "jsval \<Rightarrow> (string \<times> jsval) list" where
  "camposDe v = (case v of JObj kvs \<Rightarrow> kvs | _ \<Rightarrow> [])"

text \<open>
  The metadata of the collection lists exactly the field names \<^verbatim>\<open>nomes\<close>, in this
  order, each in a field descriptor \<^verbatim>\<open>{name: ...}\<close>.
\<close>

definition nomesNosMetadados :: "jsval \<Rightarrow> string list \<Rightarrow> bool" where
  "nomesNosMetadados entities nomes =
     (case campoLista entities of
        JArr fs \<Rightarrow> list_all ehObjeto fs \<and> map (\<lambda>f. obterOpc f ''name'') fs = map JStr nomes
      | _ \<Rightarrow> False)"

text \<open>The positional slot \<^verbatim>\<open>f{i}\<close> of an entity, when the entity has it.\<close>

definition slotDe :: "(string \<times> jsval) list \<Rightarrow> nat \<Rightarrow> jsval option" where
  "slotDe campos i = map_of campos (''f'' @ decimalNat i)"

text \<open>The value a slot wraps: its member \<^verbatim>\<open>$\<close>.\<close>

definition desembrulhar :: "jsval \<Rightarrow> jsval" where
  "desembrulhar slot = obterOpc slot ''$''"

text \<open>
  An entity of the wire format for \<^verbatim>\<open>n\<close> fields: an object whose slots
  \<^verbatim>\<open>f0\<close> ... \<^verbatim>\<open>f(n-1)\<close>, where present, are containers (objects).
\<close>

definition entidadeValida :: "nat \<Rightarrow> jsval \<Rightarrow> bool" where
  "entidadeValida n rawEntity =
     (ehObjeto rawEntity \<and>
      list_all (\<lambda>i. case slotDe (camposDe rawEntity) i of None \<Rightarrow> True | Some slot \<Rightarrow> ehObjeto slot) [0..<n])"

text \<open>
  The record the specification describes for one entity, in its words: for each
  positional index \<^verbatim>\<open>i\<close>, in index order, the slot \<^verbatim>\<open>f{i}\<close>, if present, gives
  its unwrapped value under the \<^verbatim>\<open>i\<close>-th field name; an absent slot gives nothing.
\<close>

definition registroEsperado :: "string list \<Rightarrow> (string \<times> jsval) list \<Rightarrow> jsval" where
  "registroEsperado nomes campos =
     JObj (concat (map (\<lambda>i. case slotDe campos i of
                               None \<Rightarrow> []
                             | Some slot \<Rightarrow> [(nomes ! i, desembrulhar slot)])
                       [0..<length nomes]))"

subsection \<open>Concrete collections\<close>

text \<open>A collection with an entity and no metadata.\<close>

definition semMetadados :: jsval where
  "semMetadados = JObj [(''entity'', JArr [JObj [(''f0'', JObj [(''$'', JStr ''1'')])]])]"

text \<open>Three fields and two entities; the first entity has no slot \<^verbatim>\<open>f1\<close>.\<close>

definition colecaoExemplo :: jsval where
  "colecaoExemplo =
     JObj [(''metadata'', JObj [(''fields'', JObj [(''field'',
              JArr [JObj [(''name'', JStr ''CODLEAD'')], JObj [(''name'', JStr ''NOME'')],
                    JObj [(''name'', JStr ''VALOR'')]])])]),
           (''entity'',
              JArr [JObj [(''f0'', JObj [(''$'', JStr ''1'')]), (''f2'', JObj [(''$'', JStr ''10.5'')])],
                    JObj [(''f0'', JObj [(''$'', JStr ''2'')]), (''f1'', JObj [(''$'', JStr ''Ana'')]),
                          (''f2'', JObj [(''$'', JStr ''7'')])]])]"

subsection \<open>Kinds of failure\<close>

text \<open>A timeout of axios: the error code is \<^verbatim>\<open>ECONNABORTED\<close>.\<close>

definition ehTimeout :: "erro \<Rightarrow> bool" where
  "ehTimeout e = (codigo e = Some ''ECONNABORTED'')"

text \<open>A server error: the response has a status from 500 to 599.\<close>

definition eh5xx :: "erro \<Rightarrow> bool" where
  "eh5xx e = (case status e of None \<Rightarrow> False | Some s \<Rightarrow> 500 \<le> s \<and> s \<le> 599)"

text \<open>A transient failure: a timeout or a server error, and no 401 or 403 response.\<close>

definition transitorio :: "erro \<Rightarrow> bool" where
  "transitorio e = ((ehTimeout e \<or> eh5xx e) \<and> \<not> naoAutorizado e)"

text \<open>The status of a response, when there is one, is an HTTP status (100 to 599).\<close>

definition statusHttp :: "erro \<Rightarrow> bool" where
  "statusHttp e = (case status e of None \<Rightarrow> True | Some s \<Rightarrow> 100 \<le> s \<and> s \<le> 599)"

subsection \<open>Reading the trace\<close>

definition ehLogin :: "evento \<Rightarrow> bool" where
  "ehLogin ev = (ev = Enviou ReqLogin)"

text \<open>The number of login requests on a trace.\<close>

definition logins :: "evento list \<Rightarrow> nat" where
  "logins evs = length (filter ehLogin evs)"

text \<open>
  The trace of \<^verbatim>\<open>k\<close> login attempts that failed and were retried, in the words of
  the specification: the attempt number \<^verbatim>\<open>n\<close> (from 1) is followed by a delay of the
  base delay, 2000 ms, times \<^verbatim>\<open>n\<close>.
\<close>

definition tentativasFalhas :: "nat \<Rightarrow> evento list" where
  "tentativasFalhas k = concat (map (\<lambda>n. [Enviou ReqLogin, Esperou (2000 * n)]) [1..<Suc k])"

fun ehConsulta :: "evento \<Rightarrow> bool" where
  "ehConsulta (Enviou (ReqConsulta u t p)) = True"
| "ehConsulta ev = False"

text \<open>The number of query requests on a trace: the attempts of the calls made.\<close>

definition consultas :: "evento list \<Rightarrow> nat" where
  "consultas evs = length (filter ehConsulta evs)"

text \<open>
  An event that a call of \<^verbatim>\<open>fazerRequisicaoAutenticada(u, p)\<close> may add: a login, a
  delay, or the query \<^verbatim>\<open>p\<close> sent to \<^verbatim>\<open>u\<close> with some token.
\<close>

fun daConsulta :: "string \<Rightarrow> consulta \<Rightarrow> evento \<Rightarrow> bool" where
  "daConsulta u p (Enviou (ReqConsulta u' t p')) = (u' = u \<and> p' = p)"
| "daConsulta u p ev = True"

text \<open>
  The world \<^verbatim>\<open>w'\<close> continues \<^verbatim>\<open>w\<close>: the cache and the clock are those of
  \<^verbatim>\<open>w\<close>, and the trace is that of \<^verbatim>\<open>w\<close> followed by events that all satisfy
  \<^verbatim>\<open>P\<close>.
\<close>

definition estende :: "(evento \<Rightarrow> bool) \<Rightarrow> mundo \<Rightarrow> mundo \<Rightarrow> bool" where
  "estende P w w' =
     (redis w' = redis w \<and> leituras w' = leituras w \<and>
      (\<exists>evs. eventos w' = eventos w @ evs \<and> list_all P evs))"

text \<open>The cached token is absent or is \<^verbatim>\<open>t\<close>.\<close>

definition tokenOk :: "jsval \<Rightarrow> mundo \<Rightarrow> bool" where
  "tokenOk t w = (cachedToken w = None \<or> cachedToken w = Some t)"

subsection \<open>The datasets of a snapshot\<close>

text \<open>
  The root entities of the eight queries of \<^verbatim>\<open>buscarDadosAnalise\<close>: the seven primary
  ones in the order of the source, then the products of the leads. None is the
  financial dataset, whose query the source has removed (line 459).
\<close>

definition datasets :: "string list" where
  "datasets = [''AD_LEADS'', ''AD_ADLEADSATIVIDADES'', ''AD_FUNIS'', ''AD_FUNISESTAGIOS'',
               ''CabecalhoNota'', ''Produto'', ''Parceiro'', ''AD_ADLEADSPRODUTOS'']"

text \<open>An event that is no query, or a query of one of the eight datasets at the service URL.\<close>

fun consultaConhecida :: "evento \<Rightarrow> bool" where
  "consultaConhecida (Enviou (ReqConsulta u t p)) =
     (u = URL_CONSULTA_SERVICO \<and> rootEntity p \<in> set datasets)"
| "consultaConhecida ev = True"

text \<open>A result with no financial data: the list is empty and the four metrics are zero.\<close>

definition semFinanceiro :: "Retorno \<Rightarrow> bool" where
  "semFinanceiro r =
     (financeiro (analise r) = [] \<and>
      (case metricas r of
         None \<Rightarrow> False
       | Some m \<Rightarrow> totalFinanceiro m = 0 \<and> valorTotalFinanceiro m = 0 \<and>
                   valorRecebido m = 0 \<and> valorPendente m = 0))"

text \<open>
  What a dataset of the snapshot is expected to hold when the queries of the root
  entities in \<^verbatim>\<open>S\<close> fail and \<^verbatim>\<open>m n\<close> are the mapped records of the response for
  the root entity \<^verbatim>\<open>n\<close>: the empty list for a failed query.
\<close>

definition conjuntoEsperado :: "string set \<Rightarrow> (string \<Rightarrow> jsval list) \<Rightarrow> string \<Rightarrow> jsval list" where
  "conjuntoEsperado S m n = (if n \<in> S then [] else m n)"

subsection \<open>The criteria of the leads query\<close>

definition ehDigito :: "char \<Rightarrow> bool" where
  "ehDigito c = (c \<in> set ''0123456789'')"

text \<open>A date as \<^verbatim>\<open>FiltroAnalise\<close> documents it: \<^verbatim>\<open>YYYY-MM-DD\<close>.\<close>

definition dataISO :: "string \<Rightarrow> bool" where
  "dataISO s =
     (length s = 10 \<and> list_all ehDigito (take 4 s) \<and> s ! 4 = CHR ''-'' \<and>
      list_all ehDigito (take 2 (drop 5 s)) \<and> s ! 7 = CHR ''-'' \<and> list_all ehDigito (drop 8 s))"

text \<open>The clause that restricts the leads to a user.\<close>

definition clausulaUsuario :: "int \<Rightarrow> string" where
  "clausulaUsuario userId = ''CODUSUARIO = '' @ decimal userId"

text \<open>The character \<^verbatim>\<open>a\<close> occurs in the text right before the character \<^verbatim>\<open>b\<close>.\<close>

fun temPar :: "char \<Rightarrow> char \<Rightarrow> string \<Rightarrow> bool" where
  "temPar a b (x # y # ys) = ((x = a \<and> y = b) \<or> temPar a b (y # ys))"
| "temPar a b xs = False"

subsection \<open>Acquisitions in flight\<close>

text \<open>The number of login requests sent and not yet answered.\<close>

definition emVoo :: "processo \<Rightarrow> nat" where
  "emVoo s = length (filter (\<lambda>q. suspensa q = NoLogin) (aquisicoes s))"

subsection \<open>Concrete networks and worlds\<close>

definition erroTimeout :: erro where
  "erroTimeout = ErroAxios (Some ''ECONNABORTED'') None ''timeout of 30000ms exceeded''"

definition erro401 :: erro where
  "erro401 = ErroAxios (Some ''ERR_BAD_REQUEST'') (Some 401) ''Request failed with status code 401''"

definition erro404 :: erro where
  "erro404 = ErroAxios (Some ''ERR_BAD_REQUEST'') (Some 404) ''Request failed with status code 404''"

definition erro503 :: erro where
  "erro503 = ErroAxios (Some ''ERR_BAD_RESPONSE'') (Some 503) ''Request failed with status code 503''"

definition respostaLogin :: jsval where
  "respostaLogin = JObj [(''bearerToken'', JStr ''tok-2'')]"

definition relogioExemplo :: "nat \<Rightarrow> string" where
  "relogioExemplo n = ''2024-02-01T12:00:0'' @ decimalNat n @ ''.000Z''"

definition ambiente0 :: "(evento list \<Rightarrow> requisicao \<Rightarrow> desfecho) \<Rightarrow> ambiente" where
  "ambiente0 r = \<lparr>rede = r, relogio = relogioExemplo, parseFloat = (\<lambda>s. None)\<rparr>"

text \<open>A fresh process with an empty cache, and one that already holds a token.\<close>

definition mundoInicial :: mundo where
  "mundoInicial = \<lparr>cachedToken = None, eventos = [], redis = (\<lambda>k. None), leituras = 0\<rparr>"

definition mundoComToken :: mundo where
  "mundoComToken =
     \<lparr>cachedToken = Some (JStr ''tok-1''), eventos = [], redis = (\<lambda>k. None), leituras = 0\<rparr>"

definition janeiro :: FiltroAnalise where
  "janeiro = \<lparr>dataInicio = ''2024-01-01'', dataFim = ''2024-01-31''\<rparr>"

text \<open>A filter whose start date is no date but the text of a clause.\<close>

definition filtroComClausula :: FiltroAnalise where
  "filtroComClausula = \<lparr>dataInicio = ''CODUSUARIO = 7'', dataFim = ''2024-01-31''\<rparr>"

text \<open>Every request, the login too, is answered 503; every request times out.\<close>

definition ambLogin503 :: ambiente where
  "ambLogin503 = ambiente0 (\<lambda>tr req. Falha erro503)"

definition ambSemRede :: ambiente where
  "ambSemRede = ambiente0 (\<lambda>tr req. Falha erroTimeout)"

text \<open>The first login request times out, the next one is answered with a token.\<close>

definition ambLoginInstavel :: ambiente where
  "ambLoginInstavel =
     ambiente0 (\<lambda>tr req. if tr = [] then Falha erroTimeout else Resposta respostaLogin)"

text \<open>
  A network that does not change: the login gives the token \<^verbatim>\<open>tok-2\<close>, the queries
  of the root entities in \<^verbatim>\<open>S\<close> fail with \<^verbatim>\<open>e\<close>, and the query of any other root
  entity \<^verbatim>\<open>n\<close> is answered \<^verbatim>\<open>resp n\<close>.
\<close>

definition redeFixa :: "string set \<Rightarrow> erro \<Rightarrow> (string \<Rightarrow> jsval) \<Rightarrow> evento list \<Rightarrow> requisicao \<Rightarrow> desfecho" where
  "redeFixa S e resp tr req =
     (case req of
        ReqLogin \<Rightarrow> Resposta respostaLogin
      | ReqConsulta u t p \<Rightarrow> if rootEntity p \<in> S then Falha e else Resposta (resp (rootEntity p)))"

definition envelope :: "jsval \<Rightarrow> jsval" where
  "envelope entities = JObj [(''responseBody'', JObj [(''entities'', entities)])]"

definition colecaoProdutos :: jsval where
  "colecaoProdutos =
     JObj [(''metadata'', JObj [(''fields'', JObj [(''field'',
              JArr [JObj [(''name'', JStr ''CODITEM'')], JObj [(''name'', JStr ''CODLEAD'')]])])]),
           (''entity'', JObj [(''f0'', JObj [(''$'', JStr ''90'')]), (''f1'', JObj [(''$'', JStr ''1'')])])]"

text \<open>Two leads, one product of a lead, and no row in any other dataset.\<close>

definition respostaExemplo :: "string \<Rightarrow> jsval" where
  "respostaExemplo n =
     (if n = ''AD_LEADS'' then envelope colecaoExemplo
      else if n = ''AD_ADLEADSPRODUTOS'' then envelope colecaoProdutos
      else JObj [(''responseBody'', JObj [])])"

definition mapeadosExemplo :: "string \<Rightarrow> jsval list" where
  "mapeadosExemplo n =
     (if n = ''AD_LEADS'' then
        [JObj [(''CODLEAD'', JStr ''1''), (''VALOR'', JStr ''10.5'')],
         JObj [(''CODLEAD'', JStr ''2''), (''NOME'', JStr ''Ana''), (''VALOR'', JStr ''7'')]]
      else if n = ''AD_ADLEADSPRODUTOS'' then [JObj [(''CODITEM'', JStr ''90''), (''CODLEAD'', JStr ''1'')]]
      else [])"

text \<open>The activities query fails, every other query is answered.\<close>

definition ambSemAtividades :: ambiente where
  "ambSemAtividades = ambiente0 (redeFixa {''AD_ADLEADSATIVIDADES''} erro503 respostaExemplo)"

text \<open>The query of the products of the leads fails, every other query is answered.\<close>

definition ambSemProdutosLeads :: ambiente where
  "ambSemProdutosLeads = ambiente0 (redeFixa {''AD_ADLEADSPRODUTOS''} erro503 respostaExemplo)"

text \<open>The login works and every query times out; is answered 401; is answered 404.\<close>

definition ambConsultasFalham :: ambiente where
  "ambConsultasFalham = ambiente0 (redeFixa UNIV erroTimeout respostaExemplo)"

definition amb401 :: ambiente where
  "amb401 = ambiente0 (redeFixa UNIV erro401 respostaExemplo)"

definition amb404 :: ambiente where
  "amb404 = ambiente0 (redeFixa UNIV erro404 respostaExemplo)"

text \<open>The token \<^verbatim>\<open>tok-1\<close> is refused with 401, any other token is accepted.\<close>

definition ambTokenVencido :: ambiente where
  "ambTokenVencido =
     ambiente0 (\<lambda>tr req. case req of
                  ReqLogin \<Rightarrow> Resposta respostaLogin
                | ReqConsulta u t p \<Rightarrow>
                    if t = JStr ''tok-1'' then Falha erro401
                    else Resposta (respostaExemplo (rootEntity p)))"

text \<open>The first request of all times out, and every query after it is answered 401.\<close>

definition ambTimeoutDepois401 :: ambiente where
  "ambTimeoutDepois401 =
     ambiente0 (\<lambda>tr req. case req of
                  ReqLogin \<Rightarrow> Resposta respostaLogin
                | ReqConsulta u t p \<Rightarrow> if tr = [] then Falha erroTimeout else Falha erro401)"

text \<open>Two calls of \<^verbatim>\<open>buscarDadosAnalise\<close> with the same arguments, one after the other.\<close>

definition primeiraChamada :: "(erro + Retorno) \<times> mundo" where
  "primeiraChamada = buscarDadosAnalise ambSemAtividades janeiro 7 False mundoInicial"


definition consultaFunis :: "string \<Rightarrow> requisicao" where
  "consultaFunis tok = ReqConsulta URL_CONSULTA_SERVICO (JStr tok) funisPayload"

text \<open>A fresh process with several callers.\<close>

definition processoInicial :: processo where
  "processoInicial = \<lparr>cachedToken = None, eventos = [], redis = (\<lambda>k. None), leituras = 0,
                        tokenPromise = None, aquisicoes = []\<rparr>"

text \<open>
  A caller calls \<^verbatim>\<open>obterToken()\<close>, the login request times out, the delay of 2000 ms
  passes, and the retry has sent its login request, which is not yet answered.
\<close>

definition agendaComRetry :: "passo list" where
  "agendaComRetry = [Chamada, Import 0, Login 0 (Falha erroTimeout), Timer 0, Import 1]"

text \<open>Ten callers at once, then the login request is sent and answered with a token.\<close>

definition agendaDezChamadas :: "passo list" where
  "agendaDezChamadas = replicate 10 Chamada @ [Import 0, Login 0 (Resposta respostaLogin)]"

section \<open>Properties of mapearEntidades\<close>

lemma entao_Inr [simp]: "entao (Inr x) f = f x"
  by (simp add: entao_def)

lemma entao_Inl [simp]: "entao (Inl e) f = Inl e"
  by (simp add: entao_def)

lemma substituir_novo: "k \<notin> fst ` set obj \<Longrightarrow> substituir k v obj = obj @ [(k, v)]"
  by (induction obj) auto

lemma obter_definido: "definido v \<Longrightarrow> obter v k = Inr (obterOpc v k)"
  by (cases v) (simp_all add: definido_def)

lemma obterOpc_definido: "definido (obterOpc v k) \<Longrightarrow> definido v"
  by (cases v) (simp_all add: definido_def)

lemma ehObjeto_definido: "ehObjeto v \<Longrightarrow> definido v"
  by (cases v) (simp_all add: ehObjeto_def definido_def)

lemma truthy_obter: "truthy v \<Longrightarrow> \<exists>u. obter v k = Inr u"
  by (cases v) simp_all

lemma campoLista_obj:
  assumes "campoLista entities = JArr fs"
  shows "definido entities" "definido (obterOpc entities ''metadata'')"
    "definido (obterOpc (obterOpc entities ''metadata'') ''fields'')"
proof -
  show d3: "definido (obterOpc (obterOpc entities ''metadata'') ''fields'')"
    using assms by (auto simp: campoLista_def definido_def intro!: obterOpc_definido[where k="''field''"])
  then show d2: "definido (obterOpc entities ''metadata'')" by (rule obterOpc_definido)
  then show "definido entities" by (rule obterOpc_definido)
qed

lemma mapear_ok:
  "(\<And>x. x \<in> set xs \<Longrightarrow> \<exists>y. f x = Inr y) \<Longrightarrow> \<exists>ys. mapear f xs = Inr ys"
proof (induction xs)
  case Nil
  then show ?case by simp
next
  case (Cons x xs)
  then obtain y where y: "f x = Inr y" by fastforce
  from Cons obtain ys where "mapear f xs = Inr ys" by fastforce
  with y show ?case by simp
qed

lemma mapear_map: "(\<And>x. x \<in> set xs \<Longrightarrow> f x = Inr (g x)) \<Longrightarrow> mapear f xs = Inr (map g xs)"
  by (induction xs) simp_all

lemma preencher_ok:
  assumes "definido rawEntity" and "\<forall>n \<in> set fieldNames. \<not> isl (paraChave n)"
  shows "\<exists>obj. preencher fieldNames i rawEntity cleanObject = Inr obj"
  using assms(2)
proof (induction fieldNames arbitrary: i cleanObject)
  case Nil
  then show ?case by simp
next
  case (Cons fieldName resto)
  obtain slot where slot: "obter rawEntity (''f'' @ decimalNat i) = Inr slot"
    using assms(1) obter_definido by blast
  obtain chave where chave: "paraChave fieldName = Inr chave"
    using Cons.prems by (cases "paraChave fieldName") simp_all
  have resto: "\<And>j obj. \<exists>obj'. preencher resto j rawEntity obj = Inr obj'"
    using Cons by simp
  show ?case
  proof (cases "truthy slot")
    case True
    then obtain v where "obter slot ''$'' = Inr v" using truthy_obter by blast
    with slot True chave resto show ?thesis by simp
  next
    case False
    with slot resto show ?thesis by simp
  qed
qed

lemma truthy_definido: "truthy v \<Longrightarrow> definido v"
  by (cases v) (simp_all add: definido_def)

text \<open>
  C3, as the code has it. \<^verbatim>\<open>mapearEntidades\<close> is a function of its argument alone
  (it is pure). It returns the empty sequence whenever the collection is absent (falsy)
  or has no (or a falsy) \<^verbatim>\<open>entity\<close> member, whatever the metadata are. It does not
  throw when \<^verbatim>\<open>metadata.fields.field\<close> is an array with no \<^verbatim>\<open>null\<close> entry, the
  \<^verbatim>\<open>name\<close> of every entry converts to a property key, and the \<^verbatim>\<open>entity\<close>
  member, if it is an array, has no \<^verbatim>\<open>null\<close> element.
\<close>

theorem mapearEntidades_total_on_wellformed:
  "(\<not> truthy entities \<or> \<not> truthy (obterOpc entities ''entity'') \<longrightarrow> mapearEntidades entities = Inr []) \<and>
   ((\<exists>fs. campoLista entities = JArr fs \<and>
          (\<forall>f \<in> set fs. definido f \<and> \<not> isl (paraChave (obterOpc f ''name'')))) \<and>
    (\<forall>es. obterOpc entities ''entity'' = JArr es \<longrightarrow> (\<forall>rawEntity \<in> set es. definido rawEntity))
      \<longrightarrow> (\<exists>rs. mapearEntidades entities = Inr rs))"
proof (intro conjI impI)
  assume "\<not> truthy entities \<or> \<not> truthy (obterOpc entities ''entity'')"
  then show "mapearEntidades entities = Inr []"
    by (cases entities) (auto simp: mapearEntidades_def)
next
  assume h: "(\<exists>fs. campoLista entities = JArr fs \<and>
          (\<forall>f \<in> set fs. definido f \<and> \<not> isl (paraChave (obterOpc f ''name'')))) \<and>
    (\<forall>es. obterOpc entities ''entity'' = JArr es \<longrightarrow> (\<forall>rawEntity \<in> set es. definido rawEntity))"
  then obtain fs where fs: "campoLista entities = JArr fs" "\<forall>f \<in> set fs. definido f"
      "\<forall>f \<in> set fs. \<not> isl (paraChave (obterOpc f ''name''))" by blast
  note d = campoLista_obj[OF fs(1)]
  let ?fieldNames = "map (\<lambda>f. obterOpc f ''name'') fs"
  let ?entity = "obterOpc entities ''entity''"
  have fn: "mapear (\<lambda>f. obter f ''name'') fs = Inr ?fieldNames"
    using fs(2) by (intro mapear_map) (simp add: obter_definido)
  have chaves: "\<forall>n \<in> set ?fieldNames. \<not> isl (paraChave n)" using fs(3) by simp
  show "\<exists>rs. mapearEntidades entities = Inr rs"
  proof (cases "truthy ?entity")
    case False
    then show ?thesis using d(1) by (simp add: mapearEntidades_def obter_definido)
  next
    case True
    have "definido r" if "r \<in> set (entityArray ?entity)" for r
    proof (cases ?entity)
      case (JArr es)
      then show ?thesis using h that by simp
    qed (use that True truthy_definido[of ?entity] in simp_all)
    then have "\<exists>y. limpar ?fieldNames r = Inr y" if "r \<in> set (entityArray ?entity)" for r
      using preencher_ok[OF _ chaves, of r 0 "[]"] that
      by (auto simp: limpar_def)
    then obtain rs where rs: "mapear (limpar ?fieldNames) (entityArray ?entity) = Inr rs"
      using mapear_ok by blast
    show ?thesis
      using rs fn fs(1) d
      by (auto simp: mapearEntidades_def obter_definido campoLista_def)
  qed
qed

text \<open>
  The theorem of C3 at an absent collection, at a collection with no entity, and at a
  collection of three fields and two entities.
\<close>

theorem mapearEntidades_total_witness:
  "mapearEntidades JNull = Inr [] \<and>
   mapearEntidades (JObj [(''metadata'', JNull)]) = Inr [] \<and>
   (\<exists>rs. mapearEntidades colecaoExemplo = Inr rs)"
proof -
  have h1: "\<not> truthy JNull \<or> \<not> truthy (obterOpc JNull ''entity'')" by simp
  have h2: "\<not> truthy (JObj [(''metadata'', JNull)])
            \<or> \<not> truthy (obterOpc (JObj [(''metadata'', JNull)]) ''entity'')" by simp
  have h3: "(\<exists>fs. campoLista colecaoExemplo = JArr fs \<and>
               (\<forall>f \<in> set fs. definido f \<and> \<not> isl (paraChave (obterOpc f ''name'')))) \<and>
    (\<forall>es. obterOpc colecaoExemplo ''entity'' = JArr es \<longrightarrow> (\<forall>rawEntity \<in> set es. definido rawEntity))"
    by (auto simp: colecaoExemplo_def campoLista_def definido_def)
  from mapearEntidades_total_on_wellformed[of JNull] h1
  have a: "mapearEntidades JNull = Inr []" by blast
  from mapearEntidades_total_on_wellformed[of "JObj [(''metadata'', JNull)]"] h2
  have b: "mapearEntidades (JObj [(''metadata'', JNull)]) = Inr []" by blast
  from mapearEntidades_total_on_wellformed[of colecaoExemplo] h3
  have c: "\<exists>rs. mapearEntidades colecaoExemplo = Inr rs" by blast
  from a b c show ?thesis by blast
qed

text \<open>
  C3 as the specification states it fails: a collection with an entity and no metadata
  makes \<^verbatim>\<open>mapearEntidades\<close> throw a TypeError instead of returning the empty
  sequence.
\<close>

theorem mapearEntidades_throws_without_metadata:
  "mapearEntidades semMetadados
     = Inl (ErroTipo ''Cannot read properties of undefined (reading fields)'')"
  by (simp add: semMetadados_def mapearEntidades_def)

lemma preencher_esperado:
  assumes "distinct nomes" "''__proto__'' \<notin> set nomes" "set nomes \<inter> fst ` set acc = {}"
    and "\<And>j. j < length nomes \<Longrightarrow> (case slotDe campos (i + j) of None \<Rightarrow> True | Some slot \<Rightarrow> ehObjeto slot)"
  shows "preencher (map JStr nomes) i (JObj campos) acc =
           Inr (acc @ concat (map (\<lambda>j. case slotDe campos (i + j) of
                               None \<Rightarrow> []
                             | Some slot \<Rightarrow> [(nomes ! j, desembrulhar slot)])
                       [0..<length nomes]))"
  using assms
proof (induction nomes arbitrary: i acc)
  case Nil
  then show ?case by simp
next
  case (Cons n ns)
  have shift: "map (\<lambda>j. case slotDe campos (i + j) of None \<Rightarrow> [] | Some slot \<Rightarrow> [((n # ns) ! j, desembrulhar slot)]) [0..<length (n # ns)]
      = (case slotDe campos i of None \<Rightarrow> [] | Some slot \<Rightarrow> [(n, desembrulhar slot)])
        # map (\<lambda>j. case slotDe campos (Suc i + j) of None \<Rightarrow> [] | Some slot \<Rightarrow> [(ns ! j, desembrulhar slot)]) [0..<length ns]"
    by (auto simp add: upt_conv_Cons map_Suc_upt[symmetric] simp del: upt_Suc split: option.split)
  have slots: "\<And>j. j < length ns \<Longrightarrow> (case slotDe campos (Suc i + j) of None \<Rightarrow> True | Some slot \<Rightarrow> ehObjeto slot)"
    using Cons.prems(4)[of "Suc _"] by simp
  show ?case
  proof (cases "slotDe campos i")
    case None
    have "preencher (map JStr (n # ns)) i (JObj campos) acc = preencher (map JStr ns) (Suc i) (JObj campos) acc"
      using None by (simp add: slotDe_def)
    also have "\<dots> = Inr (acc @ concat (map (\<lambda>j. case slotDe campos (Suc i + j) of None \<Rightarrow> [] | Some slot \<Rightarrow> [(ns ! j, desembrulhar slot)]) [0..<length ns]))"
      using Cons.prems slots by (intro Cons.IH) auto
    finally show ?thesis using None by (simp only: shift) simp
  next
    case (Some slot)
    have "ehObjeto slot" using Cons.prems(4)[of 0] Some by simp
    then obtain skvs where skvs: "slot = JObj skvs" by (cases slot) (simp_all add: ehObjeto_def)
    have natr: "atribuir acc n (desembrulhar slot) = acc @ [(n, desembrulhar slot)]"
      using Cons.prems by (auto simp: atribuir_def intro!: substituir_novo)
    have "preencher (map JStr (n # ns)) i (JObj campos) acc
            = preencher (map JStr ns) (Suc i) (JObj campos) (acc @ [(n, desembrulhar slot)])"
      using Some skvs natr by (simp add: slotDe_def desembrulhar_def)
    also have "\<dots> = Inr ((acc @ [(n, desembrulhar slot)]) @ concat (map (\<lambda>j. case slotDe campos (Suc i + j) of None \<Rightarrow> [] | Some slot \<Rightarrow> [(ns ! j, desembrulhar slot)]) [0..<length ns]))"
      using Cons.prems slots by (intro Cons.IH) auto
    finally show ?thesis using Some by (simp only: shift) simp
  qed
qed

lemma limpar_esperado:
  assumes "distinct nomes" "''__proto__'' \<notin> set nomes" "entidadeValida (length nomes) r"
  shows "limpar (map JStr nomes) r = Inr (registroEsperado nomes (camposDe r))"
proof -
  from assms(3) obtain campos where r: "r = JObj campos"
    by (cases r) (simp_all add: entidadeValida_def ehObjeto_def)
  have "\<And>j. j < length nomes \<Longrightarrow> (case slotDe campos (0 + j) of None \<Rightarrow> True | Some slot \<Rightarrow> ehObjeto slot)"
    using assms(3) by (simp add: entidadeValida_def r camposDe_def list_all_iff)
  from preencher_esperado[OF assms(1,2) _ this, of "[]"]
  show ?thesis by (simp add: limpar_def r registroEsperado_def camposDe_def)
qed

lemma mapearEntidades_esperado:
  assumes "truthy (obterOpc entities ''entity'')"
    and "nomesNosMetadados entities nomes"
    and "distinct nomes" and "''__proto__'' \<notin> set nomes"
    and "list_all (entidadeValida (length nomes)) (entityArray (obterOpc entities ''entity''))"
  shows "mapearEntidades entities =
           Inr (map (\<lambda>rawEntity. registroEsperado nomes (camposDe rawEntity))
                  (entityArray (obterOpc entities ''entity'')))"
proof -
  from assms(2) obtain fs where fs: "campoLista entities = JArr fs" "list_all ehObjeto fs"
      "map (\<lambda>f. obterOpc f ''name'') fs = map JStr nomes"
    by (auto simp: nomesNosMetadados_def split: jsval.splits)
  note d = campoLista_obj[OF fs(1)]
  have "mapear (\<lambda>f. obter f ''name'') fs = Inr (map (\<lambda>f. obterOpc f ''name'') fs)"
    using fs(2) by (intro mapear_map) (simp add: list_all_iff obter_definido ehObjeto_definido)
  then have fn: "nomesDosCampos (JArr fs) = Inr (map JStr nomes)" using fs(3) by simp
  have "mapear (limpar (map JStr nomes)) (entityArray (obterOpc entities ''entity''))
          = Inr (map (\<lambda>rawEntity. registroEsperado nomes (camposDe rawEntity)) (entityArray (obterOpc entities ''entity'')))"
    using assms(3,4,5) by (intro mapear_map limpar_esperado) (simp_all add: list_all_iff)
  moreover have "truthy entities" using assms(1) by (cases entities) simp_all
  ultimately show ?thesis
    using assms(1) fn fs(1) d
    by (simp add: mapearEntidades_def obter_definido campoLista_def)
qed

text \<open>
  C7. Take a collection whose metadata list the distinct field names \<^verbatim>\<open>nomes\<close> (none
  of them \<^verbatim>\<open>__proto__\<close>). When its \<^verbatim>\<open>entity\<close> member is an array \<^verbatim>\<open>es\<close> of entities
  of the wire format, \<^verbatim>\<open>mapearEntidades\<close> returns as many records as \<^verbatim>\<open>es\<close> has
  entities, the n-th record made from the n-th entity. When the \<^verbatim>\<open>entity\<close> member is
  a single entity of the wire format, an object and no array, it returns exactly one
  record, made from that entity. Each record is the one the specification describes: for
  each index \<^verbatim>\<open>i\<close> in order, the unwrapped value of the slot \<^verbatim>\<open>f{i}\<close> under the
  \<^verbatim>\<open>i\<close>-th name when the slot is present, and no member when it is absent.
\<close>

theorem mapearEntidades_maps_wire_format:
  assumes "nomesNosMetadados entities nomes"
    and "distinct nomes" and "''__proto__'' \<notin> set nomes"
  shows "(obterOpc entities ''entity'' = JArr es \<and> list_all (entidadeValida (length nomes)) es
            \<longrightarrow> mapearEntidades entities
                  = Inr (map (\<lambda>rawEntity. registroEsperado nomes (camposDe rawEntity)) es))
       \<and> (obterOpc entities ''entity'' = JObj campos \<and> entidadeValida (length nomes) (JObj campos)
            \<longrightarrow> mapearEntidades entities = Inr [registroEsperado nomes campos])"
proof (intro conjI impI)
  assume h: "obterOpc entities ''entity'' = JArr es \<and> list_all (entidadeValida (length nomes)) es"
  then have "truthy (obterOpc entities ''entity'')"
    and "list_all (entidadeValida (length nomes)) (entityArray (obterOpc entities ''entity''))"
    by simp_all
  from mapearEntidades_esperado[OF this(1) assms this(2)] h
  show "mapearEntidades entities
          = Inr (map (\<lambda>rawEntity. registroEsperado nomes (camposDe rawEntity)) es)"
    by simp
next
  assume h: "obterOpc entities ''entity'' = JObj campos \<and> entidadeValida (length nomes) (JObj campos)"
  then have "truthy (obterOpc entities ''entity'')"
    and "list_all (entidadeValida (length nomes)) (entityArray (obterOpc entities ''entity''))"
    by simp_all
  from mapearEntidades_esperado[OF this(1) assms this(2)] h
  show "mapearEntidades entities = Inr [registroEsperado nomes campos]"
    by (simp add: camposDe_def)
qed

text \<open>
  The theorem of C7 at a collection of three fields with an array of two entities, the
  first without the slot \<^verbatim>\<open>f1\<close>, and at a collection of two fields whose
  \<^verbatim>\<open>entity\<close> member is a single entity.
\<close>

theorem mapearEntidades_maps_wire_format_witness:
  "mapearEntidades colecaoExemplo =
     Inr [JObj [(''CODLEAD'', JStr ''1''), (''VALOR'', JStr ''10.5'')],
          JObj [(''CODLEAD'', JStr ''2''), (''NOME'', JStr ''Ana''), (''VALOR'', JStr ''7'')]]
   \<and> mapearEntidades colecaoProdutos
       = Inr [JObj [(''CODITEM'', JStr ''90''), (''CODLEAD'', JStr ''1'')]]"
proof -
  let ?e1 = "JObj [(''f0'', JObj [(''$'', JStr ''1'')]), (''f2'', JObj [(''$'', JStr ''10.5'')])]"
  let ?e2 = "JObj [(''f0'', JObj [(''$'', JStr ''2'')]), (''f1'', JObj [(''$'', JStr ''Ana'')]),
                   (''f2'', JObj [(''$'', JStr ''7'')])]"
  let ?c = "[(''f0'', JObj [(''$'', JStr ''90'')]), (''f1'', JObj [(''$'', JStr ''1'')])]"
  have a1: "nomesNosMetadados colecaoExemplo [''CODLEAD'', ''NOME'', ''VALOR'']"
    by (simp add: colecaoExemplo_def nomesNosMetadados_def campoLista_def ehObjeto_def)
  have a2: "obterOpc colecaoExemplo ''entity'' = JArr [?e1, ?e2]
            \<and> list_all (entidadeValida (length [''CODLEAD'', ''NOME'', ''VALOR''])) [?e1, ?e2]"
    by code_simp
  have b1: "nomesNosMetadados colecaoProdutos [''CODITEM'', ''CODLEAD'']"
    by (simp add: colecaoProdutos_def nomesNosMetadados_def campoLista_def ehObjeto_def)
  have b2: "obterOpc colecaoProdutos ''entity'' = JObj ?c
            \<and> entidadeValida (length [''CODITEM'', ''CODLEAD'']) (JObj ?c)"
    by code_simp
  have r1: "map (\<lambda>rawEntity. registroEsperado [''CODLEAD'', ''NOME'', ''VALOR''] (camposDe rawEntity)) [?e1, ?e2]
            = [JObj [(''CODLEAD'', JStr ''1''), (''VALOR'', JStr ''10.5'')],
               JObj [(''CODLEAD'', JStr ''2''), (''NOME'', JStr ''Ana''), (''VALOR'', JStr ''7'')]]"
    by code_simp
  have r2: "registroEsperado [''CODITEM'', ''CODLEAD''] ?c
            = JObj [(''CODITEM'', JStr ''90''), (''CODLEAD'', JStr ''1'')]"
    by code_simp
  from mapearEntidades_maps_wire_format[OF a1, where es="[?e1, ?e2]"] a2 r1
  have a: "mapearEntidades colecaoExemplo =
     Inr [JObj [(''CODLEAD'', JStr ''1''), (''VALOR'', JStr ''10.5'')],
          JObj [(''CODLEAD'', JStr ''2''), (''NOME'', JStr ''Ana''), (''VALOR'', JStr ''7'')]]"
    by simp
  from mapearEntidades_maps_wire_format[OF b1, where campos="?c"] b2 r2
  have b: "mapearEntidades colecaoProdutos
       = Inr [JObj [(''CODITEM'', JStr ''90''), (''CODLEAD'', JStr ''1'')]]"
    by simp
  from a b show ?thesis by blast
qed

section \<open>Properties of obterToken\<close>

lemma registrar_simps [simp]:
  "eventos (registrar ev w) = eventos w @ [ev]"
  "cachedToken (registrar ev w) = cachedToken w"
  "redis (registrar ev w) = redis w"
  "leituras (registrar ev w) = leituras w"
  by (simp_all add: registrar_def)

lemma esperar_simps [simp]:
  "eventos (esperar ms w) = eventos w @ [Esperou ms]"
  "cachedToken (esperar ms w) = cachedToken w"
  "redis (esperar ms w) = redis w"
  "leituras (esperar ms w) = leituras w"
  by (simp_all add: esperar_def)

lemma tentarLogin_falha:
  "rede a (eventos w) ReqLogin = Falha e \<Longrightarrow> tentarLogin a w = (Inl e, registrar (Enviou ReqLogin) w)"
  by (simp add: tentarLogin_def enviar_def)

lemma tentarLogin_resposta:
  "rede a (eventos w) ReqLogin = Resposta dados \<Longrightarrow>
   tentarLogin a w = (case tokenDaResposta dados of
                        Inl erro \<Rightarrow> (Inl erro, registrar (Enviou ReqLogin) w)
                      | Inr token \<Rightarrow> (Inr token, (registrar (Enviou ReqLogin) w)\<lparr>cachedToken := Some token\<rparr>))"
  by (simp add: tentarLogin_def enviar_def)

lemma tentarLogin_mundo:
  assumes "tentarLogin a w = (r, w1)"
  shows "eventos w1 = eventos w @ [Enviou ReqLogin]" "redis w1 = redis w" "leituras w1 = leituras w"
    "\<And>e. r = Inl e \<Longrightarrow> cachedToken w1 = cachedToken w"
    "\<And>t. r = Inr t \<Longrightarrow> cachedToken w1 = Some t"
  using assms
  by (auto simp: tentarLogin_def enviar_def split: desfecho.splits sum.splits)

lemma obterToken_cached: "cachedToken w = Some t \<Longrightarrow> obterToken a rc w = (Inr t, w)"
  by (subst obterToken.simps) simp

lemma obterToken_passo:
  assumes "cachedToken w = None" "rede a (eventos w) ReqLogin = Falha e"
  shows "obterToken a rc w =
          (if repeteLogin e \<and> rc < 3
           then obterToken a (rc + 1) (esperar (2000 * (rc + 1)) (registrar (Enviou ReqLogin) w))
           else (Inl (erroDeAutenticacao e), registrar (Enviou ReqLogin) w))"
  using assms
  by (subst obterToken.simps) (simp add: tentarLogin_falha)

lemma obterToken_login_ok:
  assumes "cachedToken w = None" "rede a (eventos w) ReqLogin = Resposta dados"
    "tokenDaResposta dados = Inr t2"
  shows "obterToken a rc w = (Inr t2, (registrar (Enviou ReqLogin) w)\<lparr>cachedToken := Some t2\<rparr>)"
  using assms by (subst obterToken.simps) (simp add: tentarLogin_resposta)

lemma obterToken_comeca_com_login:
  "cachedToken w = None \<Longrightarrow> prefix (eventos w @ [Enviou ReqLogin]) (eventos (snd (obterToken a rc w)))"
proof (induction a rc w rule: obterToken.induct)
  case (1 a retryCount w)
  obtain r w1 where t: "tentarLogin a w = (r, w1)" by (cases "tentarLogin a w")
  note m = tentarLogin_mundo[OF t]
  show ?case
  proof (cases r)
    case (Inr tok)
    then show ?thesis using 1 t m by (subst obterToken.simps) simp
  next
    case (Inl e)
    show ?thesis
    proof (cases "repeteLogin e \<and> retryCount < 3")
      case True
      have c: "cachedToken (esperar (2000 * (retryCount + 1)) w1) = None"
        using m(4)[OF Inl] 1(2) by simp
      have "prefix (eventos (esperar (2000 * (retryCount + 1)) w1) @ [Enviou ReqLogin])
              (eventos (snd (obterToken a (retryCount + 1) (esperar (2000 * (retryCount + 1)) w1))))"
        using 1(1)[OF 1(2) t[symmetric] Inl True c] .
      then have "prefix (eventos w @ [Enviou ReqLogin])
              (eventos (snd (obterToken a (retryCount + 1) (esperar (2000 * (retryCount + 1)) w1))))"
        using m(1) by (auto simp: prefix_def)
      then show ?thesis using 1(2) t Inl True by (subst obterToken.simps) simp
    next
      case False
      then show ?thesis using 1(2) t Inl m by (subst obterToken.simps) auto
    qed
  qed
qed

lemma logins_append [simp]: "logins (xs @ ys) = logins xs + logins ys"
  by (simp add: logins_def)

lemma logins_simps [simp]: "logins [] = 0" "logins (Enviou ReqLogin # evs) = Suc (logins evs)"
  "logins (Esperou n # evs) = logins evs" "logins (Enviou (ReqConsulta u t p) # evs) = logins evs"
  by (simp_all add: logins_def ehLogin_def)

lemma obterToken_logins:
  "logins (eventos (snd (obterToken a rc w))) \<le> logins (eventos w) + Suc (3 - rc)"
proof (induction a rc w rule: obterToken.induct)
  case (1 a retryCount w)
  show ?case
  proof (cases "cachedToken w")
    case (Some t)
    then show ?thesis by (simp add: obterToken_cached)
  next
    case None
    obtain r w1 where t: "tentarLogin a w = (r, w1)" by (cases "tentarLogin a w")
    note m = tentarLogin_mundo[OF t]
    show ?thesis
    proof (cases r)
      case (Inr tok)
      then show ?thesis using None t m by (subst obterToken.simps) simp
    next
      case (Inl e)
      show ?thesis
      proof (cases "repeteLogin e \<and> retryCount < 3")
        case True
        from 1[OF None t[symmetric] Inl True]
        have "logins (eventos (snd (obterToken a (retryCount + 1) (esperar (2000 * (retryCount + 1)) w1))))
                \<le> logins (eventos w) + Suc (3 - retryCount)"
          using m(1) True by simp arith
        then show ?thesis using None t Inl True by (subst obterToken.simps) simp
      next
        case False
        then show ?thesis using None t Inl m by (subst obterToken.simps) auto
      qed
    qed
  qed
qed

lemma consultas_append [simp]: "consultas (xs @ ys) = consultas xs + consultas ys"
  by (simp add: consultas_def)

lemma consultas_simps [simp]: "consultas [] = 0" "consultas (Enviou ReqLogin # evs) = consultas evs"
  "consultas (Esperou n # evs) = consultas evs"
  "consultas (Enviou (ReqConsulta u t p) # evs) = Suc (consultas evs)"
  by (simp_all add: consultas_def)

lemma obterToken_mundo:
  "redis (snd (obterToken a rc w)) = redis w \<and> leituras (snd (obterToken a rc w)) = leituras w \<and>
   (\<exists>evs. eventos (snd (obterToken a rc w)) = eventos w @ evs \<and> list_all (\<lambda>ev. \<not> ehConsulta ev) evs)"
proof (induction a rc w rule: obterToken.induct)
  case (1 a retryCount w)
  show ?case
  proof (cases "cachedToken w")
    case (Some t)
    then show ?thesis by (simp add: obterToken_cached)
  next
    case None
    obtain r w1 where t: "tentarLogin a w = (r, w1)" by (cases "tentarLogin a w")
    note m = tentarLogin_mundo[OF t]
    show ?thesis
    proof (cases r)
      case (Inr tok)
      then show ?thesis using None t m by (subst (1 2 3) obterToken.simps) simp
    next
      case (Inl e)
      show ?thesis
      proof (cases "repeteLogin e \<and> retryCount < 3")
        case True
        let ?w2 = "esperar (2000 * (retryCount + 1)) w1"
        from 1[OF None t[symmetric] Inl True]
        obtain evs where ih: "redis (snd (obterToken a (retryCount + 1) ?w2)) = redis ?w2"
          "leituras (snd (obterToken a (retryCount + 1) ?w2)) = leituras ?w2"
          "eventos (snd (obterToken a (retryCount + 1) ?w2)) = eventos ?w2 @ evs"
          "list_all (\<lambda>ev. \<not> ehConsulta ev) evs" by blast
        have u: "obterToken a retryCount w = obterToken a (retryCount + 1) ?w2"
          using None t Inl True by (subst obterToken.simps) simp
        have "eventos (snd (obterToken a retryCount w))
                = eventos w @ ([Enviou ReqLogin, Esperou (2000 * (retryCount + 1))] @ evs)"
          using ih(3) m(1) u by simp
        moreover have "list_all (\<lambda>ev. \<not> ehConsulta ev) ([Enviou ReqLogin, Esperou (2000 * (retryCount + 1))] @ evs)"
          using ih(4) by simp
        ultimately show ?thesis using ih(1,2) m(2,3) u by (metis esperar_simps(3,4))
      next
        case False
        then show ?thesis using None t Inl m by (subst (1 2 3) obterToken.simps) auto
      qed
    qed
  qed
qed

lemma tentativasFalhas_0 [simp]: "tentativasFalhas 0 = []"
  by (simp add: tentativasFalhas_def)

lemma tentativasFalhas_Suc:
  "tentativasFalhas (Suc k) = tentativasFalhas k @ [Enviou ReqLogin, Esperou (2000 * Suc k)]"
  by (simp add: tentativasFalhas_def)

lemma obterToken_apos_falhas:
  assumes "cachedToken w = None" and "k \<le> 3"
    and "\<forall>n<k. \<exists>e. rede a (eventos w @ tentativasFalhas n) ReqLogin = Falha e \<and> repeteLogin e"
  shows "obterToken a 0 w = obterToken a k (w\<lparr>eventos := eventos w @ tentativasFalhas k\<rparr>)"
  using assms(2,3)
proof (induction k)
  case 0
  then show ?case by simp
next
  case (Suc k)
  let ?wk = "w\<lparr>eventos := eventos w @ tentativasFalhas k\<rparr>"
  from Suc.prems obtain e where e: "rede a (eventos w @ tentativasFalhas k) ReqLogin = Falha e" "repeteLogin e"
    by blast
  have "obterToken a 0 w = obterToken a k ?wk" using Suc by simp
  also have "\<dots> = obterToken a (k + 1) (esperar (2000 * (k + 1)) (registrar (Enviou ReqLogin) ?wk))"
    using obterToken_passo[of ?wk a e k] assms(1) e Suc.prems(1) by simp
  also have "esperar (2000 * (k + 1)) (registrar (Enviou ReqLogin) ?wk)
               = w\<lparr>eventos := eventos w @ tentativasFalhas (Suc k)\<rparr>"
    by (simp add: esperar_def registrar_def tentativasFalhas_Suc)
  finally show ?case by simp
qed

text \<open>
  C4, as the code has it. Take a call \<^verbatim>\<open>obterToken()\<close> with no token cached, whose
  first \<^verbatim>\<open>k\<close> login attempts, \<^verbatim>\<open>k\<close> at most 3, fail with a timeout or with a
  response of status 500. Each of these attempts is retried: the attempt number
  \<^verbatim>\<open>n\<close> is followed by a delay of \<^verbatim>\<open>2000 ms\<close> times \<^verbatim>\<open>n\<close> and by the attempt
  number \<^verbatim>\<open>n + 1\<close>. If the attempt number \<^verbatim>\<open>k + 1\<close> fails with any other failure,
  or fails at all when it is the fourth one, the call raises the authentication error
  right after it, with no delay and no further request. If it is answered with a token,
  the call returns the token and caches it. Whatever the network does, a call sends at
  most 4 login requests: one first attempt and 3 retries.
\<close>

theorem obterToken_retries_timeout_or_500:
  assumes "cachedToken w = None" and "k \<le> 3"
    and "\<forall>n<k. \<exists>e. rede a (eventos w @ tentativasFalhas n) ReqLogin = Falha e
                    \<and> (ehTimeout e \<or> status e = Some 500)"
  shows "(rede a (eventos w @ tentativasFalhas k) ReqLogin = Falha e
            \<and> (k = 3 \<or> \<not> (ehTimeout e \<or> status e = Some 500))
          \<longrightarrow> fst (obterToken a 0 w) = Inl (erroDeAutenticacao e)
            \<and> eventos (snd (obterToken a 0 w)) = eventos w @ tentativasFalhas k @ [Enviou ReqLogin]
            \<and> cachedToken (snd (obterToken a 0 w)) = None)
       \<and> (rede a (eventos w @ tentativasFalhas k) ReqLogin = Resposta dados
            \<and> tokenDaResposta dados = Inr t
          \<longrightarrow> fst (obterToken a 0 w) = Inr t
            \<and> eventos (snd (obterToken a 0 w)) = eventos w @ tentativasFalhas k @ [Enviou ReqLogin]
            \<and> cachedToken (snd (obterToken a 0 w)) = Some t)
       \<and> logins (eventos (snd (obterToken a 0 w))) \<le> logins (eventos w) + 4"
proof -
  let ?wk = "w\<lparr>eventos := eventos w @ tentativasFalhas k\<rparr>"
  have r: "repeteLogin e' = (ehTimeout e' \<or> status e' = Some 500)" for e'
    by (simp add: repeteLogin_def ehTimeout_def)
  have k: "obterToken a 0 w = obterToken a k ?wk"
    using obterToken_apos_falhas[OF assms(1,2)] assms(3) r by simp
  have c: "cachedToken ?wk = None" using assms(1) by simp
  have falha: "obterToken a 0 w = (Inl (erroDeAutenticacao e), registrar (Enviou ReqLogin) ?wk)"
    if "rede a (eventos w @ tentativasFalhas k) ReqLogin = Falha e"
      and "k = 3 \<or> \<not> (ehTimeout e \<or> status e = Some 500)"
    using obterToken_passo[OF c, of a e k] that k r by auto
  have token: "obterToken a 0 w = (Inr t, (registrar (Enviou ReqLogin) ?wk)\<lparr>cachedToken := Some t\<rparr>)"
    if "rede a (eventos w @ tentativasFalhas k) ReqLogin = Resposta dados"
      and "tokenDaResposta dados = Inr t"
    using obterToken_login_ok[OF c, of a dados t k] that k by simp
  show ?thesis
  proof (intro conjI impI)
    show "logins (eventos (snd (obterToken a 0 w))) \<le> logins (eventos w) + 4"
      using obterToken_logins[of a 0 w] by simp
  qed (simp_all add: falha token assms(1))
qed

text \<open>
  The theorem of C4 at a network where every request times out (four login requests,
  after delays of 2000, 4000 and 6000 ms, then the error), at one that answers 503 (one
  login request, then the error) and at one whose first login request times out and
  whose second one is answered (a retry after 2000 ms, then the token).
\<close>

theorem obterToken_retries_witness:
  "fst (obterToken ambSemRede 0 mundoInicial) = Inl (erroDeAutenticacao erroTimeout)
   \<and> eventos (snd (obterToken ambSemRede 0 mundoInicial))
       = [Enviou ReqLogin, Esperou 2000, Enviou ReqLogin, Esperou 4000,
          Enviou ReqLogin, Esperou 6000, Enviou ReqLogin]
   \<and> fst (obterToken ambLogin503 0 mundoInicial) = Inl (erroDeAutenticacao erro503)
   \<and> eventos (snd (obterToken ambLogin503 0 mundoInicial)) = [Enviou ReqLogin]
   \<and> fst (obterToken ambLoginInstavel 0 mundoInicial) = Inr (JStr ''tok-2'')
   \<and> eventos (snd (obterToken ambLoginInstavel 0 mundoInicial))
       = [Enviou ReqLogin, Esperou 2000, Enviou ReqLogin]
   \<and> cachedToken (snd (obterToken ambLoginInstavel 0 mundoInicial)) = Some (JStr ''tok-2'')
   \<and> logins (eventos (snd (obterToken ambSemRede 0 mundoInicial))) \<le> 4"
proof -
  have h1: "cachedToken mundoInicial = None" by (simp add: mundoInicial_def)
  have ev: "eventos mundoInicial = []" by (simp add: mundoInicial_def)
  have t: "ehTimeout erroTimeout" "\<not> ehTimeout erro503" "status erro503 \<noteq> Some 500"
    by (simp_all add: ehTimeout_def erroTimeout_def erro503_def)
  have f1: "tentativasFalhas (Suc 0) = [Enviou ReqLogin, Esperou 2000]"
    and f3: "tentativasFalhas 3 = [Enviou ReqLogin, Esperou 2000, Enviou ReqLogin, Esperou 4000,
                                   Enviou ReqLogin, Esperou 6000]"
    by (simp_all add: tentativasFalhas_def upt_rec)
  have a3: "\<forall>n<3. \<exists>e. rede ambSemRede (eventos mundoInicial @ tentativasFalhas n) ReqLogin = Falha e
                       \<and> (ehTimeout e \<or> status e = Some 500)"
    using t by (simp add: ambSemRede_def ambiente0_def)
  have a4: "rede ambSemRede (eventos mundoInicial @ tentativasFalhas 3) ReqLogin = Falha erroTimeout"
    by (simp add: ambSemRede_def ambiente0_def)
  have b0: "\<forall>n<0. \<exists>e. rede ambLogin503 (eventos mundoInicial @ tentativasFalhas n) ReqLogin = Falha e
                       \<and> (ehTimeout e \<or> status e = Some 500)"
    by simp
  have b1: "rede ambLogin503 (eventos mundoInicial @ tentativasFalhas 0) ReqLogin = Falha erro503"
    by (simp add: ambLogin503_def ambiente0_def)
  have c1: "\<forall>n<1. \<exists>e. rede ambLoginInstavel (eventos mundoInicial @ tentativasFalhas n) ReqLogin = Falha e
                       \<and> (ehTimeout e \<or> status e = Some 500)"
    using t by (simp add: ambLoginInstavel_def ambiente0_def ev)
  have c2: "rede ambLoginInstavel (eventos mundoInicial @ tentativasFalhas 1) ReqLogin = Resposta respostaLogin"
    by (simp add: ambLoginInstavel_def ambiente0_def f1)
  have c3: "tokenDaResposta respostaLogin = Inr (JStr ''tok-2'')"
    by (simp add: respostaLogin_def tokenDaResposta_def)
  note A = obterToken_retries_timeout_or_500[OF h1 _ a3, where e=erroTimeout]
  note B = obterToken_retries_timeout_or_500[OF h1 _ b0, where e=erro503]
  note C = obterToken_retries_timeout_or_500[OF h1 _ c1, where dados=respostaLogin and t="JStr ''tok-2''"]
  from A a4 have a: "fst (obterToken ambSemRede 0 mundoInicial) = Inl (erroDeAutenticacao erroTimeout)
   \<and> eventos (snd (obterToken ambSemRede 0 mundoInicial))
       = [Enviou ReqLogin, Esperou 2000, Enviou ReqLogin, Esperou 4000,
          Enviou ReqLogin, Esperou 6000, Enviou ReqLogin]
   \<and> logins (eventos (snd (obterToken ambSemRede 0 mundoInicial))) \<le> 4"
    by (simp add: ev f3)
  from B b1 t have b: "fst (obterToken ambLogin503 0 mundoInicial) = Inl (erroDeAutenticacao erro503)
   \<and> eventos (snd (obterToken ambLogin503 0 mundoInicial)) = [Enviou ReqLogin]"
    by (simp add: ev)
  from C c2 c3 have c: "fst (obterToken ambLoginInstavel 0 mundoInicial) = Inr (JStr ''tok-2'')
   \<and> eventos (snd (obterToken ambLoginInstavel 0 mundoInicial))
       = [Enviou ReqLogin, Esperou 2000, Enviou ReqLogin]
   \<and> cachedToken (snd (obterToken ambLoginInstavel 0 mundoInicial)) = Some (JStr ''tok-2'')"
    by (simp add: ev f1)
  from a b c show ?thesis by blast
qed

text \<open>
  C4 as the specification states it fails: a login answered 503, a server error, is not
  retried. The call sends one login request and raises the authentication error.
\<close>

theorem obterToken_503_not_retried:
  "eh5xx erro503 \<and>
   fst (obterToken ambLogin503 0 mundoInicial) = Inl (erroDeAutenticacao erro503) \<and>
   eventos (snd (obterToken ambLogin503 0 mundoInicial)) = [Enviou ReqLogin]"
  by code_simp

section \<open>Properties of fazerRequisicaoAutenticada\<close>

lemma tentarRequisicao_cached:
  "cachedToken w = Some t \<Longrightarrow>
   tentarRequisicao a u p w =
     (case rede a (eventos w) (ReqConsulta u t p) of
        Falha e \<Rightarrow> (Inl e, registrar (Enviou (ReqConsulta u t p)) w)
      | Resposta d \<Rightarrow> (Inr d, registrar (Enviou (ReqConsulta u t p)) w))"
  by (simp add: tentarRequisicao_def obterToken_cached enviar_def split: desfecho.splits)

lemma tentarRequisicao_login:
  assumes "cachedToken w = None" "rede a (eventos w) ReqLogin = Resposta dados"
    "tokenDaResposta dados = Inr t2"
  shows "tentarRequisicao a u p w =
     (case rede a (eventos w @ [Enviou ReqLogin]) (ReqConsulta u t2 p) of
        Falha e \<Rightarrow> (Inl e, registrar (Enviou (ReqConsulta u t2 p)) ((registrar (Enviou ReqLogin) w)\<lparr>cachedToken := Some t2\<rparr>))
      | Resposta d \<Rightarrow> (Inr d, registrar (Enviou (ReqConsulta u t2 p)) ((registrar (Enviou ReqLogin) w)\<lparr>cachedToken := Some t2\<rparr>)))"
  using obterToken_login_ok[OF assms, of 0]
  by (simp add: tentarRequisicao_def enviar_def split: desfecho.splits)

lemma tentarRequisicao_mundo:
  assumes "tentarRequisicao a u p w = (r, w1)"
  shows "redis w1 = redis w" "leituras w1 = leituras w"
    "\<exists>evs. eventos w1 = eventos w @ evs \<and> list_all (daConsulta u p) evs \<and> consultas evs \<le> 1"
proof -
  obtain r0 w0 where o: "obterToken a 0 w = (r0, w0)" by (cases "obterToken a 0 w")
  from obterToken_mundo[of a 0 w] o obtain evs where
    f: "redis w0 = redis w" "leituras w0 = leituras w" "eventos w0 = eventos w @ evs"
       "list_all (\<lambda>ev. \<not> ehConsulta ev) evs" by auto
  have nc: "consultas evs = 0" "list_all (daConsulta u p) evs"
    using f(4) by (induction evs) (auto simp: consultas_def elim: ehConsulta.elims daConsulta.elims)
  show "redis w1 = redis w" "leituras w1 = leituras w"
    using assms o f(1,2)
    by (auto simp: tentarRequisicao_def enviar_def split: sum.splits desfecho.splits)
  show "\<exists>evs. eventos w1 = eventos w @ evs \<and> list_all (daConsulta u p) evs \<and> consultas evs \<le> 1"
  proof (cases r0)
    case (Inl e)
    then have "eventos w1 = eventos w @ evs" using assms o f(3) by (simp add: tentarRequisicao_def)
    then show ?thesis using nc by auto
  next
    case (Inr tok)
    then have "eventos w1 = eventos w @ (evs @ [Enviou (ReqConsulta u tok p)])"
      using assms o f(3) by (auto simp: tentarRequisicao_def enviar_def split: desfecho.splits)
    moreover have "list_all (daConsulta u p) (evs @ [Enviou (ReqConsulta u tok p)])"
      "consultas (evs @ [Enviou (ReqConsulta u tok p)]) \<le> 1"
      using nc by simp_all
    ultimately show ?thesis by blast
  qed
qed

lemma fazerRequisicaoAutenticada_mundo:
  "redis (snd (fazerRequisicaoAutenticada a u p rc w)) = redis w \<and>
   leituras (snd (fazerRequisicaoAutenticada a u p rc w)) = leituras w \<and>
   (\<exists>evs. eventos (snd (fazerRequisicaoAutenticada a u p rc w)) = eventos w @ evs \<and>
          list_all (daConsulta u p) evs \<and> consultas evs \<le> Suc (2 - rc))"
proof (induction a u p rc w rule: fazerRequisicaoAutenticada.induct)
  case (1 a fullUrl data retryCount w)
  let ?F = "fazerRequisicaoAutenticada a fullUrl data"
  obtain r w1 where t: "tentarRequisicao a fullUrl data w = (r, w1)"
    by (cases "tentarRequisicao a fullUrl data w")
  from tentarRequisicao_mundo[OF t] obtain evs where
    m: "redis w1 = redis w" "leituras w1 = leituras w" "eventos w1 = eventos w @ evs"
       "list_all (daConsulta fullUrl data) evs" "consultas evs \<le> 1" by blast
  have fim: "?F retryCount w = (r', w1') \<Longrightarrow> redis w1' = redis w1 \<Longrightarrow> leituras w1' = leituras w1
      \<Longrightarrow> eventos w1' = eventos w1 \<Longrightarrow> ?case" for r' w1'
    using m by auto
  have rec: ?case
    if u: "?F retryCount w = ?F (retryCount + 1) w2"
      and ih: "redis (snd (?F (retryCount + 1) w2)) = redis w2 \<and>
         leituras (snd (?F (retryCount + 1) w2)) = leituras w2 \<and>
         (\<exists>evs. eventos (snd (?F (retryCount + 1) w2)) = eventos w2 @ evs \<and>
          list_all (daConsulta fullUrl data) evs \<and> consultas evs \<le> Suc (2 - (retryCount + 1)))"
      and w2: "redis w2 = redis w1" "leituras w2 = leituras w1" "eventos w2 = eventos w1 @ [Esperou ms]"
      and lt: "retryCount < 2"
    for w2 ms
  proof -
    from ih obtain evs2 where e2: "eventos (snd (?F (retryCount + 1) w2)) = eventos w2 @ evs2"
      "list_all (daConsulta fullUrl data) evs2" "consultas evs2 \<le> Suc (2 - (retryCount + 1))" by blast
    have "eventos (snd (?F retryCount w)) = eventos w @ (evs @ [Esperou ms] @ evs2)"
      using u e2(1) w2(3) m(3) by simp
    moreover have "list_all (daConsulta fullUrl data) (evs @ [Esperou ms] @ evs2)"
      using m(4) e2(2) by simp
    moreover have "consultas (evs @ [Esperou ms] @ evs2) \<le> Suc (2 - retryCount)"
      using m(5) e2(3) lt by simp
    ultimately show ?thesis using ih u w2 m(1,2) by metis
  qed
  show ?case
  proof (cases r)
    case (Inr d)
    then have "?F retryCount w = (Inr d, w1)"
      using t by (subst fazerRequisicaoAutenticada.simps) simp
    then show ?thesis by (rule fim) simp_all
  next
    case (Inl e)
    show ?thesis
    proof (cases "naoAutorizado e")
      case True
      show ?thesis
      proof (cases "retryCount < 1")
        case lt: True
        let ?w2 = "esperar 500 (w1\<lparr>cachedToken := None\<rparr>)"
        have u: "?F retryCount w = ?F (retryCount + 1) ?w2"
          using t Inl True lt by (subst fazerRequisicaoAutenticada.simps) simp
        show ?thesis
          by (rule rec[OF u 1(1)[OF t[symmetric] Inl True lt]]) (use lt in simp_all)
      next
        case False
        then have "?F retryCount w = (Inl (Erro msgSessaoExpirada), w1\<lparr>cachedToken := None\<rparr>)"
          using t Inl True by (subst fazerRequisicaoAutenticada.simps) simp
        then show ?thesis by (rule fim) simp_all
      qed
    next
      case na: False
      show ?thesis
      proof (cases "repeteRequisicao e \<and> retryCount < 2")
        case True
        let ?w2 = "esperar (1000 * (retryCount + 1)) w1"
        have u: "?F retryCount w = ?F (retryCount + 1) ?w2"
          using t Inl na True by (subst fazerRequisicaoAutenticada.simps) simp
        show ?thesis
          by (rule rec[OF u 1(2)[OF t[symmetric] Inl na True]]) (use True in simp_all)
      next
        case False
        then have "?F retryCount w = (Inl e, w1)"
          using t Inl na by (subst fazerRequisicaoAutenticada.simps) auto
        then show ?thesis by (rule fim) simp_all
      qed
    qed
  qed
qed

lemma fazer_apos_tentativa:
  assumes "tentarRequisicao a u p w = (r, w1)"
  shows "prefix (eventos w1) (eventos (snd (fazerRequisicaoAutenticada a u p rc w)))"
proof -
  have a: "\<And>w'. prefix (eventos w') (eventos (snd (fazerRequisicaoAutenticada a u p (rc + 1) w')))"
    using fazerRequisicaoAutenticada_mundo by (metis prefixI)
  have b: "prefix (eventos w1) (eventos (snd (fazerRequisicaoAutenticada a u p (rc + 1) (esperar ms w2))))"
    if "eventos w2 = eventos w1" for ms w2
    using a[of "esperar ms w2"] that by (auto simp: prefix_def)
  show ?thesis
    using assms b by (subst fazerRequisicaoAutenticada.simps) (auto split: sum.splits)
qed

lemma fazer_comeca_com_login:
  assumes "cachedToken w = None"
  shows "prefix (eventos w @ [Enviou ReqLogin]) (eventos (snd (fazerRequisicaoAutenticada a u p rc w)))"
proof -
  obtain r w1 where t: "tentarRequisicao a u p w = (r, w1)" by (cases "tentarRequisicao a u p w")
  obtain r0 w0 where o: "obterToken a 0 w = (r0, w0)" by (cases "obterToken a 0 w")
  have "prefix (eventos w @ [Enviou ReqLogin]) (eventos w0)"
    using obterToken_comeca_com_login[OF assms, of a 0] o by simp
  moreover have "prefix (eventos w0) (eventos w1)"
    using t o by (auto simp: tentarRequisicao_def enviar_def split: sum.splits desfecho.splits)
  moreover have "prefix (eventos w1) (eventos (snd (fazerRequisicaoAutenticada a u p rc w)))"
  proof -
    have a: "\<And>w'. prefix (eventos w') (eventos (snd (fazerRequisicaoAutenticada a u p (rc + 1) w')))"
      using fazerRequisicaoAutenticada_mundo by (metis prefixI)
    have b: "prefix (eventos w1) (eventos (snd (fazerRequisicaoAutenticada a u p (rc + 1) (esperar ms w2))))"
      if "eventos w2 = eventos w1" for ms w2
      using a[of "esperar ms w2"] that by (auto simp: prefix_def)
    show ?thesis
      using t b by (subst fazerRequisicaoAutenticada.simps) (auto split: sum.splits)
  qed
  ultimately show ?thesis by (meson prefix_order.trans)
qed

lemma transitorio_repete: "transitorio e \<Longrightarrow> repeteRequisicao e \<and> \<not> naoAutorizado e"
  by (auto simp: transitorio_def repeteRequisicao_def ehTimeout_def eh5xx_def split: option.splits)

lemma fazer_passo_falha:
  assumes "cachedToken w = Some t" "rede a (eventos w) (ReqConsulta u t p) = Falha e"
  shows "fazerRequisicaoAutenticada a u p rc w =
     (if naoAutorizado e then
        (if rc < 1
         then fazerRequisicaoAutenticada a u p (rc + 1)
                (esperar 500 ((registrar (Enviou (ReqConsulta u t p)) w)\<lparr>cachedToken := None\<rparr>))
         else (Inl (Erro msgSessaoExpirada), (registrar (Enviou (ReqConsulta u t p)) w)\<lparr>cachedToken := None\<rparr>))
      else if repeteRequisicao e \<and> rc < 2
      then fazerRequisicaoAutenticada a u p (rc + 1)
             (esperar (1000 * (rc + 1)) (registrar (Enviou (ReqConsulta u t p)) w))
      else (Inl e, registrar (Enviou (ReqConsulta u t p)) w))"
  using assms
  by (subst fazerRequisicaoAutenticada.simps) (simp add: tentarRequisicao_cached)

lemma fazer_transitorio:
  assumes tok: "cachedToken w = Some t"
    and tr: "\<forall>tr. \<exists>e. rede a tr (ReqConsulta u t p) = Falha e \<and> transitorio e"
  shows "eventos (snd (fazerRequisicaoAutenticada a u p 0 w))
           = eventos w @ [Enviou (ReqConsulta u t p), Esperou 1000,
                          Enviou (ReqConsulta u t p), Esperou 2000, Enviou (ReqConsulta u t p)]
         \<and> (\<exists>e. fst (fazerRequisicaoAutenticada a u p 0 w) = Inl e \<and> transitorio e \<and>
                rede a (eventos w @ [Enviou (ReqConsulta u t p), Esperou 1000,
                          Enviou (ReqConsulta u t p), Esperou 2000]) (ReqConsulta u t p) = Falha e)"
proof -
  let ?c = "Enviou (ReqConsulta u t p)"
  let ?w1 = "esperar 1000 (registrar ?c w)"
  let ?w2 = "esperar 2000 (registrar ?c ?w1)"
  from tr obtain e1 where e1: "rede a (eventos w) (ReqConsulta u t p) = Falha e1" "transitorio e1" by blast
  from tr obtain e2 where e2: "rede a (eventos ?w1) (ReqConsulta u t p) = Falha e2" "transitorio e2" by blast
  from tr obtain e3 where e3: "rede a (eventos ?w2) (ReqConsulta u t p) = Falha e3" "transitorio e3" by blast
  have t1: "cachedToken ?w1 = Some t" and t2: "cachedToken ?w2 = Some t" using tok by simp_all
  have "fazerRequisicaoAutenticada a u p 0 w = fazerRequisicaoAutenticada a u p 1 ?w1"
    using fazer_passo_falha[OF tok e1(1), of 0] transitorio_repete[OF e1(2)] by simp
  also have "\<dots> = fazerRequisicaoAutenticada a u p 2 ?w2"
    using fazer_passo_falha[OF t1 e2(1), of 1] transitorio_repete[OF e2(2)] by (simp add: numeral_2_eq_2)
  also have "\<dots> = (Inl e3, registrar ?c ?w2)"
    using fazer_passo_falha[OF t2 e3(1), of 2] transitorio_repete[OF e3(2)] by simp
  finally show ?thesis using e3 by simp
qed

text \<open>
  C8. A call \<^verbatim>\<open>fazerRequisicaoAutenticada(url, payload)\<close> sends at most 3 query
  requests, \<^verbatim>\<open>1 + MAX_RETRIES\<close>, whatever the network does, so the recursion ends
  (the function is total). With a token in the cache, if every attempt fails with a
  timeout or a server error, the query is sent exactly 3 times, with delays of
  \<^verbatim>\<open>1000 ms\<close> times 1 and times 2 between the attempts, and the transient failure is
  raised. A failure that is no timeout, no server error and no 401 or 403 is raised as it
  is after a single attempt, at any retry count.
\<close>

theorem fazerRequisicaoAutenticada_transient_bound:
  "consultas (eventos (snd (fazerRequisicaoAutenticada a u p 0 w))) \<le> consultas (eventos w) + 3
   \<and> (cachedToken w = Some t \<and> (\<forall>tr. \<exists>e. rede a tr (ReqConsulta u t p) = Falha e \<and> transitorio e)
        \<longrightarrow> eventos (snd (fazerRequisicaoAutenticada a u p 0 w))
               = eventos w @ [Enviou (ReqConsulta u t p), Esperou (1000 * 1),
                              Enviou (ReqConsulta u t p), Esperou (1000 * 2), Enviou (ReqConsulta u t p)]
            \<and> (\<exists>e. fst (fazerRequisicaoAutenticada a u p 0 w) = Inl e \<and> transitorio e))
   \<and> (cachedToken w = Some t \<and> rede a (eventos w) (ReqConsulta u t p) = Falha e
        \<and> \<not> ehTimeout e \<and> \<not> eh5xx e \<and> \<not> naoAutorizado e \<and> statusHttp e
        \<longrightarrow> fazerRequisicaoAutenticada a u p rc w = (Inl e, registrar (Enviou (ReqConsulta u t p)) w))"
proof (intro conjI impI)
  from fazerRequisicaoAutenticada_mundo[of a u p 0 w]
  show "consultas (eventos (snd (fazerRequisicaoAutenticada a u p 0 w))) \<le> consultas (eventos w) + 3"
    by auto
next
  assume "cachedToken w = Some t \<and> (\<forall>tr. \<exists>e. rede a tr (ReqConsulta u t p) = Falha e \<and> transitorio e)"
  then have h: "cachedToken w = Some t" "\<forall>tr. \<exists>e. rede a tr (ReqConsulta u t p) = Falha e \<and> transitorio e"
    by simp_all
  from fazer_transitorio[OF h]
  show "eventos (snd (fazerRequisicaoAutenticada a u p 0 w))
               = eventos w @ [Enviou (ReqConsulta u t p), Esperou (1000 * 1),
                              Enviou (ReqConsulta u t p), Esperou (1000 * 2), Enviou (ReqConsulta u t p)]"
    by simp
  from fazer_transitorio[OF h]
  show "\<exists>e. fst (fazerRequisicaoAutenticada a u p 0 w) = Inl e \<and> transitorio e" by blast
next
  assume h: "cachedToken w = Some t \<and> rede a (eventos w) (ReqConsulta u t p) = Falha e
        \<and> \<not> ehTimeout e \<and> \<not> eh5xx e \<and> \<not> naoAutorizado e \<and> statusHttp e"
  then have "\<not> repeteRequisicao e"
    by (auto simp: repeteRequisicao_def ehTimeout_def eh5xx_def statusHttp_def split: option.splits)
  with h show "fazerRequisicaoAutenticada a u p rc w = (Inl e, registrar (Enviou (ReqConsulta u t p)) w)"
    using fazer_passo_falha[of w t a u p e rc] by simp
qed

text \<open>
  The theorem of C8 at a network whose queries all time out, and at one whose queries
  are answered 404.
\<close>

theorem fazerRequisicaoAutenticada_transient_witness:
  "consultas (eventos (snd (fazerRequisicaoAutenticada ambConsultasFalham URL_CONSULTA_SERVICO funisPayload 0 mundoComToken))) \<le> 3
   \<and> eventos (snd (fazerRequisicaoAutenticada ambConsultasFalham URL_CONSULTA_SERVICO funisPayload 0 mundoComToken))
       = [Enviou (consultaFunis ''tok-1''), Esperou 1000, Enviou (consultaFunis ''tok-1''), Esperou 2000,
          Enviou (consultaFunis ''tok-1'')]
   \<and> (\<exists>e. fst (fazerRequisicaoAutenticada ambConsultasFalham URL_CONSULTA_SERVICO funisPayload 0 mundoComToken) = Inl e
          \<and> transitorio e)
   \<and> fazerRequisicaoAutenticada amb404 URL_CONSULTA_SERVICO funisPayload 0 mundoComToken
       = (Inl erro404, registrar (Enviou (consultaFunis ''tok-1'')) mundoComToken)"
proof -
  have h1: "cachedToken mundoComToken = Some (JStr ''tok-1'')" by (simp add: mundoComToken_def)
  have ev: "eventos mundoComToken = []" by (simp add: mundoComToken_def)
  have t: "transitorio erroTimeout"
    by (simp add: transitorio_def ehTimeout_def naoAutorizado_def erroTimeout_def)
  have h2: "\<forall>tr. \<exists>e. rede ambConsultasFalham tr (ReqConsulta URL_CONSULTA_SERVICO (JStr ''tok-1'') funisPayload) = Falha e \<and> transitorio e"
    using t by (simp add: ambConsultasFalham_def ambiente0_def redeFixa_def)
  have h3: "rede amb404 (eventos mundoComToken) (ReqConsulta URL_CONSULTA_SERVICO (JStr ''tok-1'') funisPayload) = Falha erro404"
    by (simp add: amb404_def ambiente0_def redeFixa_def)
  have h4: "\<not> ehTimeout erro404 \<and> \<not> eh5xx erro404 \<and> \<not> naoAutorizado erro404 \<and> statusHttp erro404"
    by (simp add: ehTimeout_def eh5xx_def naoAutorizado_def statusHttp_def erro404_def)
  note A = fazerRequisicaoAutenticada_transient_bound[where a=ambConsultasFalham and u=URL_CONSULTA_SERVICO and p=funisPayload
        and w=mundoComToken and t="JStr ''tok-1''"]
  note B = fazerRequisicaoAutenticada_transient_bound[where a=amb404 and u=URL_CONSULTA_SERVICO and p=funisPayload
        and w=mundoComToken and t="JStr ''tok-1''" and e=erro404 and rc=0]
  from A h1 h2 have a: "consultas (eventos (snd (fazerRequisicaoAutenticada ambConsultasFalham URL_CONSULTA_SERVICO funisPayload 0 mundoComToken))) \<le> 3
   \<and> eventos (snd (fazerRequisicaoAutenticada ambConsultasFalham URL_CONSULTA_SERVICO funisPayload 0 mundoComToken))
       = [Enviou (consultaFunis ''tok-1''), Esperou 1000, Enviou (consultaFunis ''tok-1''), Esperou 2000,
          Enviou (consultaFunis ''tok-1'')]
   \<and> (\<exists>e. fst (fazerRequisicaoAutenticada ambConsultasFalham URL_CONSULTA_SERVICO funisPayload 0 mundoComToken) = Inl e
          \<and> transitorio e)"
    by (simp add: ev consultaFunis_def)
  from B h1 h3 h4 have b: "fazerRequisicaoAutenticada amb404 URL_CONSULTA_SERVICO funisPayload 0 mundoComToken
       = (Inl erro404, registrar (Enviou (consultaFunis ''tok-1'')) mundoComToken)"
    by (simp add: consultaFunis_def)
  from a b show ?thesis by blast
qed

text \<open>
  C5, as the code has it. With a token \<^verbatim>\<open>t\<close> in the cache, let the first attempt
  of a call be answered 401 or 403. The token is dropped and the whole call is made
  again, once, after 500 ms; it starts with a new login. If that login gives the token
  \<^verbatim>\<open>t2\<close> and the query sent with it is answered, the call returns the answer and
  \<^verbatim>\<open>t2\<close> stays in the cache. If the query sent with \<^verbatim>\<open>t2\<close> is answered 401 or 403
  again, the call raises the error \<^verbatim>\<open>msgSessaoExpirada\<close> (the session has expired)
  after these two attempts, with no token left in the cache.
\<close>

theorem fazerRequisicaoAutenticada_auth_retry:
  assumes "cachedToken w = Some t"
    and "rede a (eventos w) (ReqConsulta u t p) = Falha e"
    and "naoAutorizado e"
  shows "prefix (eventos w @ [Enviou (ReqConsulta u t p), Esperou 500, Enviou ReqLogin])
           (eventos (snd (fazerRequisicaoAutenticada a u p 0 w)))
       \<and> (rede a (eventos w @ [Enviou (ReqConsulta u t p), Esperou 500]) ReqLogin = Resposta dados
            \<and> tokenDaResposta dados = Inr t2
            \<and> rede a (eventos w @ [Enviou (ReqConsulta u t p), Esperou 500, Enviou ReqLogin]) (ReqConsulta u t2 p) = Resposta d
          \<longrightarrow> fst (fazerRequisicaoAutenticada a u p 0 w) = Inr d
            \<and> eventos (snd (fazerRequisicaoAutenticada a u p 0 w))
                = eventos w @ [Enviou (ReqConsulta u t p), Esperou 500, Enviou ReqLogin, Enviou (ReqConsulta u t2 p)]
            \<and> cachedToken (snd (fazerRequisicaoAutenticada a u p 0 w)) = Some t2)
       \<and> (rede a (eventos w @ [Enviou (ReqConsulta u t p), Esperou 500]) ReqLogin = Resposta dados
            \<and> tokenDaResposta dados = Inr t2
            \<and> rede a (eventos w @ [Enviou (ReqConsulta u t p), Esperou 500, Enviou ReqLogin]) (ReqConsulta u t2 p) = Falha e2
            \<and> naoAutorizado e2
          \<longrightarrow> fst (fazerRequisicaoAutenticada a u p 0 w) = Inl (Erro msgSessaoExpirada)
            \<and> eventos (snd (fazerRequisicaoAutenticada a u p 0 w))
                = eventos w @ [Enviou (ReqConsulta u t p), Esperou 500, Enviou ReqLogin, Enviou (ReqConsulta u t2 p)]
            \<and> cachedToken (snd (fazerRequisicaoAutenticada a u p 0 w)) = None)"
proof -
  let ?c = "Enviou (ReqConsulta u t p)"
  let ?w1 = "esperar 500 ((registrar ?c w)\<lparr>cachedToken := None\<rparr>)"
  let ?w2 = "registrar (Enviou (ReqConsulta u t2 p)) ((registrar (Enviou ReqLogin) ?w1)\<lparr>cachedToken := Some t2\<rparr>)"
  have passo: "fazerRequisicaoAutenticada a u p 0 w = fazerRequisicaoAutenticada a u p 1 ?w1"
    using fazer_passo_falha[OF assms(1,2), of 0] assms(3) by simp
  have semToken: "cachedToken ?w1 = None" by simp
  have ev1: "eventos ?w1 = eventos w @ [?c, Esperou 500]" by simp
  have primeiro: "prefix (eventos w @ [?c, Esperou 500, Enviou ReqLogin])
              (eventos (snd (fazerRequisicaoAutenticada a u p 0 w)))"
    using fazer_comeca_com_login[OF semToken, of a u p 1] passo ev1 by simp
  have respondida: "fazerRequisicaoAutenticada a u p 0 w = (Inr d, ?w2)"
    if h: "rede a (eventos w @ [?c, Esperou 500]) ReqLogin = Resposta dados
            \<and> tokenDaResposta dados = Inr t2
            \<and> rede a (eventos w @ [?c, Esperou 500, Enviou ReqLogin]) (ReqConsulta u t2 p) = Resposta d"
  proof -
    have l: "rede a (eventos ?w1) ReqLogin = Resposta dados" using h ev1 by simp
    have q: "rede a (eventos ?w1 @ [Enviou ReqLogin]) (ReqConsulta u t2 p) = Resposta d"
      using h ev1 by simp
    have "tentarRequisicao a u p ?w1 = (Inr d, ?w2)"
      using tentarRequisicao_login[OF semToken l, of t2 u p] h q by simp
    then have "fazerRequisicaoAutenticada a u p 1 ?w1 = (Inr d, ?w2)"
      by (subst fazerRequisicaoAutenticada.simps) simp
    then show ?thesis using passo by simp
  qed
  have recusada: "fazerRequisicaoAutenticada a u p 0 w
                    = (Inl (Erro msgSessaoExpirada), ?w2\<lparr>cachedToken := None\<rparr>)"
    if h: "rede a (eventos w @ [?c, Esperou 500]) ReqLogin = Resposta dados
            \<and> tokenDaResposta dados = Inr t2
            \<and> rede a (eventos w @ [?c, Esperou 500, Enviou ReqLogin]) (ReqConsulta u t2 p) = Falha e2
            \<and> naoAutorizado e2"
  proof -
    have l: "rede a (eventos ?w1) ReqLogin = Resposta dados" using h ev1 by simp
    have q: "rede a (eventos ?w1 @ [Enviou ReqLogin]) (ReqConsulta u t2 p) = Falha e2"
      using h ev1 by simp
    have "tentarRequisicao a u p ?w1 = (Inl e2, ?w2)"
      using tentarRequisicao_login[OF semToken l, of t2 u p] h q by simp
    then have "fazerRequisicaoAutenticada a u p 1 ?w1
                 = (Inl (Erro msgSessaoExpirada), ?w2\<lparr>cachedToken := None\<rparr>)"
      using h by (subst fazerRequisicaoAutenticada.simps) simp
    then show ?thesis using passo by simp
  qed
  show ?thesis
  proof (intro conjI impI)
    show "prefix (eventos w @ [?c, Esperou 500, Enviou ReqLogin])
              (eventos (snd (fazerRequisicaoAutenticada a u p 0 w)))" by (rule primeiro)
  qed (simp_all add: respondida recusada)
qed

text \<open>
  The theorem of C5 from a world that holds the token \<^verbatim>\<open>tok-1\<close>: at a network that
  refuses that token and accepts the new one, and at a network that answers every query
  401.
\<close>

theorem fazerRequisicaoAutenticada_auth_retry_witness:
  "prefix [Enviou (consultaFunis ''tok-1''), Esperou 500, Enviou ReqLogin]
      (eventos (snd (fazerRequisicaoAutenticada amb401 URL_CONSULTA_SERVICO funisPayload 0 mundoComToken)))
   \<and> fst (fazerRequisicaoAutenticada ambTokenVencido URL_CONSULTA_SERVICO funisPayload 0 mundoComToken)
       = Inr (respostaExemplo ''AD_FUNIS'')
   \<and> eventos (snd (fazerRequisicaoAutenticada ambTokenVencido URL_CONSULTA_SERVICO funisPayload 0 mundoComToken))
       = [Enviou (consultaFunis ''tok-1''), Esperou 500, Enviou ReqLogin, Enviou (consultaFunis ''tok-2'')]
   \<and> cachedToken (snd (fazerRequisicaoAutenticada ambTokenVencido URL_CONSULTA_SERVICO funisPayload 0 mundoComToken))
       = Some (JStr ''tok-2'')
   \<and> fst (fazerRequisicaoAutenticada amb401 URL_CONSULTA_SERVICO funisPayload 0 mundoComToken)
       = Inl (Erro msgSessaoExpirada)
   \<and> eventos (snd (fazerRequisicaoAutenticada amb401 URL_CONSULTA_SERVICO funisPayload 0 mundoComToken))
       = [Enviou (consultaFunis ''tok-1''), Esperou 500, Enviou ReqLogin, Enviou (consultaFunis ''tok-2'')]
   \<and> cachedToken (snd (fazerRequisicaoAutenticada amb401 URL_CONSULTA_SERVICO funisPayload 0 mundoComToken)) = None"
proof -
  have h1: "cachedToken mundoComToken = Some (JStr ''tok-1'')" by (simp add: mundoComToken_def)
  have ev: "eventos mundoComToken = []" by (simp add: mundoComToken_def)
  have h3: "naoAutorizado erro401" by (simp add: naoAutorizado_def erro401_def)
  have h5: "tokenDaResposta respostaLogin = Inr (JStr ''tok-2'')"
    by (simp add: respostaLogin_def tokenDaResposta_def)
  have a2: "rede amb401 (eventos mundoComToken) (ReqConsulta URL_CONSULTA_SERVICO (JStr ''tok-1'') funisPayload) = Falha erro401"
    by (simp add: amb401_def ambiente0_def redeFixa_def)
  have a4: "rede amb401 (eventos mundoComToken @ [Enviou (ReqConsulta URL_CONSULTA_SERVICO (JStr ''tok-1'') funisPayload), Esperou 500]) ReqLogin = Resposta respostaLogin"
    by (simp add: amb401_def ambiente0_def redeFixa_def)
  have a6: "rede amb401 (eventos mundoComToken @ [Enviou (ReqConsulta URL_CONSULTA_SERVICO (JStr ''tok-1'') funisPayload), Esperou 500, Enviou ReqLogin])
              (ReqConsulta URL_CONSULTA_SERVICO (JStr ''tok-2'') funisPayload) = Falha erro401"
    by (simp add: amb401_def ambiente0_def redeFixa_def)
  have b2: "rede ambTokenVencido (eventos mundoComToken) (ReqConsulta URL_CONSULTA_SERVICO (JStr ''tok-1'') funisPayload) = Falha erro401"
    by (simp add: ambTokenVencido_def ambiente0_def)
  have b4: "rede ambTokenVencido (eventos mundoComToken @ [Enviou (ReqConsulta URL_CONSULTA_SERVICO (JStr ''tok-1'') funisPayload), Esperou 500]) ReqLogin = Resposta respostaLogin"
    by (simp add: ambTokenVencido_def ambiente0_def)
  have b6: "rede ambTokenVencido (eventos mundoComToken @ [Enviou (ReqConsulta URL_CONSULTA_SERVICO (JStr ''tok-1'') funisPayload), Esperou 500, Enviou ReqLogin])
              (ReqConsulta URL_CONSULTA_SERVICO (JStr ''tok-2'') funisPayload) = Resposta (respostaExemplo ''AD_FUNIS'')"
    by (simp add: ambTokenVencido_def ambiente0_def funisPayload_def)
  note A = fazerRequisicaoAutenticada_auth_retry[OF h1 a2 h3,
      where dados=respostaLogin and ?t2.0="JStr ''tok-2''" and ?e2.0=erro401]
  note B = fazerRequisicaoAutenticada_auth_retry[OF h1 b2 h3,
      where dados=respostaLogin and ?t2.0="JStr ''tok-2''" and d="respostaExemplo ''AD_FUNIS''"]
  show ?thesis
    using A B a4 a6 b4 b6 h5 h3 by (simp add: ev consultaFunis_def)
qed

text \<open>
  C5 as the specification states it fails: the first attempt times out and is retried
  after 1000 ms, the second attempt is answered 401, and the call raises the session
  error at once. That 401 response causes no login and no retry with a new token: the
  retry counter is shared with the transient retries.
\<close>

theorem fazerRequisicaoAutenticada_401_after_timeout:
  "naoAutorizado erro401
   \<and> rede ambTimeoutDepois401 [Enviou (consultaFunis ''tok-1''), Esperou 1000] (consultaFunis ''tok-1'') = Falha erro401
   \<and> fst (fazerRequisicaoAutenticada ambTimeoutDepois401 URL_CONSULTA_SERVICO funisPayload 0 mundoComToken)
       = Inl (Erro msgSessaoExpirada)
   \<and> eventos (snd (fazerRequisicaoAutenticada ambTimeoutDepois401 URL_CONSULTA_SERVICO funisPayload 0 mundoComToken))
       = [Enviou (consultaFunis ''tok-1''), Esperou 1000, Enviou (consultaFunis ''tok-1'')]"
  by code_simp

section \<open>Properties of buscarDadosAnalise\<close>

lemma estende_refl: "estende P w w"
  by (simp add: estende_def)

lemma estende_trans: "estende P w w1 \<Longrightarrow> estende P w1 w2 \<Longrightarrow> estende P w w2"
  by (auto simp: estende_def)

lemma estende_mono: "estende P w w1 \<Longrightarrow> (\<And>ev. P ev \<Longrightarrow> Q ev) \<Longrightarrow> estende Q w w1"
  by (auto simp: estende_def list_all_iff)

lemma daConsulta_conhecida:
  "rootEntity p \<in> set datasets \<Longrightarrow> daConsulta URL_CONSULTA_SERVICO p ev \<Longrightarrow> consultaConhecida ev"
  by (cases "(URL_CONSULTA_SERVICO, p, ev)" rule: daConsulta.cases) auto

lemma fazer_estende:
  "estende (daConsulta u p) w (snd (fazerRequisicaoAutenticada a u p rc w))"
  using fazerRequisicaoAutenticada_mundo[of a u p rc w] by (auto simp: estende_def)

lemma consultarOuNulo_estende:
  assumes "consultarOuNulo a p w = (res, w1)" "rootEntity p \<in> set datasets"
  shows "estende consultaConhecida w w1"
proof -
  have "w1 = snd (fazerRequisicaoAutenticada a URL_CONSULTA_SERVICO p 0 w)"
    using assms(1) by (auto simp: consultarOuNulo_def split: prod.splits sum.splits)
  then show ?thesis
    using fazer_estende[of URL_CONSULTA_SERVICO p w a 0] daConsulta_conhecida[OF assms(2)]
    by (auto intro: estende_mono)
qed

lemma buscarProdutosLeads_estende:
  assumes "buscarProdutosLeads a ls w = (r, w1)"
  shows "estende consultaConhecida w w1"
proof (cases "length ls > 0")
  case False
  then show ?thesis using assms by (simp add: buscarProdutosLeads_def estende_refl)
next
  case True
  show ?thesis
  proof (cases "mapear (\<lambda>l. obter l ''CODLEAD'') ls")
    case (Inl e)
    then show ?thesis using assms True by (simp add: buscarProdutosLeads_def estende_refl)
  next
    case (Inr cods)
    have "rootEntity (produtosLeadsPayload (juntar cods)) \<in> set datasets"
      by (simp add: produtosLeadsPayload_def datasets_def)
    moreover have "w1 = snd (fazerRequisicaoAutenticada a URL_CONSULTA_SERVICO (produtosLeadsPayload (juntar cods)) 0 w)"
      using assms True Inr by (auto simp: buscarProdutosLeads_def split: prod.splits sum.splits)
    ultimately show ?thesis
      using fazer_estende[of URL_CONSULTA_SERVICO "produtosLeadsPayload (juntar cods)" w a 0] daConsulta_conhecida
      by (auto intro: estende_mono)
  qed
qed

lemma concluir_resultado:
  assumes "concluir a f userId ls pls es fs ats pds prs cls w = (r, w1)"
  shows "eventos w1 = eventos w"
    and "redis w1 = (redis w)(cacheKey f userId \<mapsto>
           (\<lparr>leads = ls, produtosLeads = pls, estagiosFunis = es, funis = fs, atividades = ats,
             pedidos = pds, produtos = prs, clientes = cls, financeiro = [], filtro = f,
             timestamp = relogio a (leituras w)\<rparr>, 30 * 60))"
    and "analise r = \<lparr>leads = ls, produtosLeads = pls, estagiosFunis = es, funis = fs, atividades = ats,
             pedidos = pds, produtos = prs, clientes = cls, financeiro = [], filtro = f,
             timestamp = relogio a (leituras w + 1)\<rparr>"
    and "metricas r = Some \<lparr>totalLeads = length ls, totalAtividades = length ats,
             totalPedidos = length pds, totalProdutos = length prs, totalClientes = length cls,
             totalFinanceiro = 0, valorTotalPedidos = somaPedidos a pds,
             valorTotalFinanceiro = 0, valorRecebido = 0, valorPendente = 0\<rparr>"
    and "cachedToken w1 = cachedToken w"
  using assms by (auto simp: concluir_def agora_def redisSet_def Let_def)

lemma aposConsultas_propriedades:
  assumes "aposConsultas a f userId r1 r2 r3 r4 r5 r6 r7 w = (res, w1)"
  shows "\<exists>evs. eventos w1 = eventos w @ evs \<and> list_all consultaConhecida evs"
    and "\<And>r. res = Inr r \<Longrightarrow> semFinanceiro r"
proof -
  let ?m = "entao (entidadesDe r1) (\<lambda>ls.
           entao (entidadesDe r2) (\<lambda>ats.
           entao (entidadesDe r3) (\<lambda>fs.
           entao (entidadesDe r4) (\<lambda>es.
           entao (entidadesDe r5) (\<lambda>pds.
           entao (entidadesDe r6) (\<lambda>prs.
           entao (entidadesDe r7) (\<lambda>cls. Inr (ls, ats, fs, es, pds, prs, cls))))))))"
  have both: "(\<exists>evs. eventos w1 = eventos w @ evs \<and> list_all consultaConhecida evs)
              \<and> (\<forall>r. res = Inr r \<longrightarrow> semFinanceiro r)"
  proof (cases ?m)
    case (Inl e)
    then have "res = Inl e" "w1 = w" using assms by (simp_all add: aposConsultas_def)
    then show ?thesis by simp
  next
    case (Inr tup)
    obtain ls ats fs es pds prs cls where tup: "tup = (ls, ats, fs, es, pds, prs, cls)"
      by (cases tup) auto
    obtain rp wp where bp: "buscarProdutosLeads a ls w = (rp, wp)"
      by (cases "buscarProdutosLeads a ls w")
    note ep = buscarProdutosLeads_estende[OF bp]
    show ?thesis
    proof (cases rp)
      case (Inl e)
      then have "res = Inl e" "w1 = wp" using assms Inr tup bp by (simp_all add: aposConsultas_def)
      then show ?thesis using ep by (auto simp: estende_def)
    next
      case pls: (Inr pls)
      obtain r w2 where c: "concluir a f userId ls pls es fs ats pds prs cls wp = (r, w2)"
        by (cases "concluir a f userId ls pls es fs ats pds prs cls wp")
      have "res = Inr r" "w1 = w2" using assms Inr tup bp pls c by (simp_all add: aposConsultas_def)
      moreover have "semFinanceiro r"
        using concluir_resultado(3,4)[OF c] by (simp add: semFinanceiro_def)
      moreover have "eventos w2 = eventos wp" using concluir_resultado(1)[OF c] .
      ultimately show ?thesis using ep by (auto simp: estende_def)
    qed
  qed
  from both show "\<exists>evs. eventos w1 = eventos w @ evs \<and> list_all consultaConhecida evs" by blast
  from both show "\<And>r. res = Inr r \<Longrightarrow> semFinanceiro r" by blast
qed

lemma sete_consultas:
  assumes "consultarOuNulo a p1 w = (r1, w1)" "consultarOuNulo a p2 w1 = (r2, w2)"
    "consultarOuNulo a p3 w2 = (r3, w3)" "consultarOuNulo a p4 w3 = (r4, w4)"
    "consultarOuNulo a p5 w4 = (r5, w5)" "consultarOuNulo a p6 w5 = (r6, w6)"
    "consultarOuNulo a p7 w6 = (r7, w7)"
    and "list_all (\<lambda>p. rootEntity p \<in> set datasets) [p1, p2, p3, p4, p5, p6, p7]"
  shows "estende consultaConhecida w w7"
proof -
  have "estende consultaConhecida w w1" "estende consultaConhecida w1 w2"
    "estende consultaConhecida w2 w3" "estende consultaConhecida w3 w4"
    "estende consultaConhecida w4 w5" "estende consultaConhecida w5 w6"
    "estende consultaConhecida w6 w7"
    using assms by (auto intro: consultarOuNulo_estende)
  then show ?thesis by (meson estende_trans)
qed

lemma payloads_conhecidos:
  "list_all (\<lambda>p. rootEntity p \<in> set datasets)
     [leadsPayload f userId isAdmin, atividadesPayload f, funisPayload, estagiosPayload,
      pedidosPayload f, produtosPayload, clientesPayload]"
  by (simp add: datasets_def leadsPayload_def atividadesPayload_def funisPayload_def
        estagiosPayload_def pedidosPayload_def produtosPayload_def clientesPayload_def)

lemma miss_inicial: "redisGet mundoInicial k = None"
  by (simp add: redisGet_def mundoInicial_def)

text \<open>
  C10. On the cache-miss path, every result that \<^verbatim>\<open>buscarDadosAnalise\<close> returns has
  an empty \<^verbatim>\<open>financeiro\<close> list and the metrics \<^verbatim>\<open>totalFinanceiro\<close>,
  \<^verbatim>\<open>valorTotalFinanceiro\<close>, \<^verbatim>\<open>valorRecebido\<close> and \<^verbatim>\<open>valorPendente\<close> equal to
  zero; and whether the call returns or throws, every query it sends goes to the service
  URL for one of the eight datasets, none of them the financial one.
\<close>

theorem buscarDadosAnalise_no_financeiro:
  assumes "redisGet w (cacheKey f userId) = None"
  shows "(case fst (buscarDadosAnalise a f userId isAdmin w) of
            Inl erro \<Rightarrow> True
          | Inr r \<Rightarrow> semFinanceiro r)
         \<and> (\<exists>evs. eventos (snd (buscarDadosAnalise a f userId isAdmin w)) = eventos w @ evs
                   \<and> list_all consultaConhecida evs)"
proof -
  obtain r1 w1 where q1: "consultarOuNulo a (leadsPayload f userId isAdmin) w = (r1, w1)"
    by (cases "consultarOuNulo a (leadsPayload f userId isAdmin) w")
  obtain r2 w2 where q2: "consultarOuNulo a (atividadesPayload f) w1 = (r2, w2)"
    by (cases "consultarOuNulo a (atividadesPayload f) w1")
  obtain r3 w3 where q3: "consultarOuNulo a funisPayload w2 = (r3, w3)"
    by (cases "consultarOuNulo a funisPayload w2")
  obtain r4 w4 where q4: "consultarOuNulo a estagiosPayload w3 = (r4, w4)"
    by (cases "consultarOuNulo a estagiosPayload w3")
  obtain r5 w5 where q5: "consultarOuNulo a (pedidosPayload f) w4 = (r5, w5)"
    by (cases "consultarOuNulo a (pedidosPayload f) w4")
  obtain r6 w6 where q6: "consultarOuNulo a produtosPayload w5 = (r6, w6)"
    by (cases "consultarOuNulo a produtosPayload w5")
  obtain r7 w7 where q7: "consultarOuNulo a clientesPayload w6 = (r7, w7)"
    by (cases "consultarOuNulo a clientesPayload w6")
  obtain res w8 where ap: "aposConsultas a f userId r1 r2 r3 r4 r5 r6 r7 w7 = (res, w8)"
    by (cases "aposConsultas a f userId r1 r2 r3 r4 r5 r6 r7 w7")
  have b: "buscarDadosAnalise a f userId isAdmin w = (res, w8)"
    using assms q1 q2 q3 q4 q5 q6 q7 ap by (simp add: buscarDadosAnalise_def)
  have e7: "estende consultaConhecida w w7"
    using sete_consultas[OF q1 q2 q3 q4 q5 q6 q7 payloads_conhecidos] .
  from aposConsultas_propriedades(1)[OF ap] e7
  have "\<exists>evs. eventos w8 = eventos w @ evs \<and> list_all consultaConhecida evs"
    by (auto simp: estende_def)
  moreover have "case res of Inl erro \<Rightarrow> True | Inr r \<Rightarrow> semFinanceiro r"
    using aposConsultas_propriedades(2)[OF ap] by (cases res) simp_all
  ultimately show ?thesis using b by simp
qed

text \<open>
  The theorem of C10 at a first call on a network where only the activities query fails.
\<close>

theorem buscarDadosAnalise_no_financeiro_witness:
  "\<not> isl (fst (buscarDadosAnalise ambSemAtividades janeiro 7 False mundoInicial))
   \<and> semFinanceiro (projr (fst (buscarDadosAnalise ambSemAtividades janeiro 7 False mundoInicial)))
   \<and> (\<exists>evs. eventos (snd (buscarDadosAnalise ambSemAtividades janeiro 7 False mundoInicial)) = eventos mundoInicial @ evs
            \<and> list_all consultaConhecida evs)"
proof -
  have n: "\<not> isl (fst (buscarDadosAnalise ambSemAtividades janeiro 7 False mundoInicial))"
    unfolding primeiraChamada_def[symmetric] by code_simp
  then obtain r where r: "fst (buscarDadosAnalise ambSemAtividades janeiro 7 False mundoInicial) = Inr r"
    by (cases "fst (buscarDadosAnalise ambSemAtividades janeiro 7 False mundoInicial)") auto
  from buscarDadosAnalise_no_financeiro[OF miss_inicial, where f=janeiro and userId=7 and a=ambSemAtividades and isAdmin=False] r n
  show ?thesis by simp
qed

subsection \<open>Failing queries\<close>

lemma obterToken_estavel:
  assumes "\<forall>tr. \<exists>d. rede a tr ReqLogin = Resposta d \<and> tokenDaResposta d = Inr t" "tokenOk t w"
  shows "fst (obterToken a rc w) = Inr t \<and> cachedToken (snd (obterToken a rc w)) = Some t"
proof (cases "cachedToken w")
  case None
  from assms(1) obtain d where "rede a (eventos w) ReqLogin = Resposta d" "tokenDaResposta d = Inr t"
    by blast
  from obterToken_login_ok[OF None this, of rc] show ?thesis by simp
next
  case (Some t')
  then show ?thesis using assms(2) by (simp add: obterToken_cached tokenOk_def)
qed

lemma tentarRequisicao_estavel:
  assumes "\<forall>tr. \<exists>d. rede a tr ReqLogin = Resposta d \<and> tokenDaResposta d = Inr t" "tokenOk t w"
  shows "\<exists>w0. cachedToken w0 = Some t \<and>
           tentarRequisicao a u p w =
             (case rede a (eventos w0) (ReqConsulta u t p) of
                Falha e \<Rightarrow> (Inl e, registrar (Enviou (ReqConsulta u t p)) w0)
              | Resposta d \<Rightarrow> (Inr d, registrar (Enviou (ReqConsulta u t p)) w0))"
proof -
  obtain r0 w0 where o: "obterToken a 0 w = (r0, w0)" by (cases "obterToken a 0 w")
  with obterToken_estavel[OF assms, of 0] have "r0 = Inr t" "cachedToken w0 = Some t" by simp_all
  then show ?thesis using o
    by (intro exI[of _ w0]) (simp add: tentarRequisicao_def enviar_def split: desfecho.splits)
qed

lemma fazer_sucesso:
  assumes "\<forall>tr. \<exists>d. rede a tr ReqLogin = Resposta d \<and> tokenDaResposta d = Inr t" "tokenOk t w"
    and "\<forall>tr tok. rede a tr (ReqConsulta u tok p) = Resposta d"
  shows "fst (fazerRequisicaoAutenticada a u p rc w) = Inr d \<and>
         tokenOk t (snd (fazerRequisicaoAutenticada a u p rc w))"
proof -
  from tentarRequisicao_estavel[OF assms(1,2), of u p] assms(3)
  obtain w0 where "cachedToken w0 = Some t"
    "tentarRequisicao a u p w = (Inr d, registrar (Enviou (ReqConsulta u t p)) w0)" by auto
  then show ?thesis
    by (subst (1 2) fazerRequisicaoAutenticada.simps) (simp add: tokenOk_def)
qed

lemma fazer_falha:
  assumes "\<forall>tr. \<exists>d. rede a tr ReqLogin = Resposta d \<and> tokenDaResposta d = Inr t"
    and "\<forall>tr tok. \<exists>e. rede a tr (ReqConsulta u tok p) = Falha e"
    and "tokenOk t w"
  shows "isl (fst (fazerRequisicaoAutenticada a u p rc w)) \<and>
         tokenOk t (snd (fazerRequisicaoAutenticada a u p rc w))"
  using assms
proof (induction a u p rc w rule: fazerRequisicaoAutenticada.induct)
  case (1 a fullUrl data retryCount w)
  let ?F = "fazerRequisicaoAutenticada a fullUrl data"
  note login = "1.prems"(1) and falham = "1.prems"(2)
  from tentarRequisicao_estavel[OF login "1.prems"(3), of fullUrl data]
  obtain w0 where w0: "cachedToken w0 = Some t"
    "tentarRequisicao a fullUrl data w =
             (case rede a (eventos w0) (ReqConsulta fullUrl t data) of
                Falha e \<Rightarrow> (Inl e, registrar (Enviou (ReqConsulta fullUrl t data)) w0)
              | Resposta d \<Rightarrow> (Inr d, registrar (Enviou (ReqConsulta fullUrl t data)) w0))"
    by blast
  from falham obtain e where "rede a (eventos w0) (ReqConsulta fullUrl t data) = Falha e" by blast
  with w0 have t: "tentarRequisicao a fullUrl data w = (Inl e, registrar (Enviou (ReqConsulta fullUrl t data)) w0)"
    by simp
  let ?w1 = "registrar (Enviou (ReqConsulta fullUrl t data)) w0"
  have ok1: "tokenOk t ?w1" using w0(1) by (simp add: tokenOk_def)
  show ?case
  proof (cases "naoAutorizado e")
    case True
    show ?thesis
    proof (cases "retryCount < 1")
      case lt: True
      let ?w2 = "esperar 500 (?w1\<lparr>cachedToken := None\<rparr>)"
      have u: "?F retryCount w = ?F (retryCount + 1) ?w2"
        using t True lt by (subst fazerRequisicaoAutenticada.simps) simp
      have "tokenOk t ?w2" by (simp add: tokenOk_def)
      from "1.IH"(1)[OF t[symmetric] refl True lt login falham this] u show ?thesis by simp
    next
      case False
      then have "?F retryCount w = (Inl (Erro msgSessaoExpirada), ?w1\<lparr>cachedToken := None\<rparr>)"
        using t True by (subst fazerRequisicaoAutenticada.simps) simp
      then show ?thesis by (simp add: tokenOk_def)
    qed
  next
    case na: False
    show ?thesis
    proof (cases "repeteRequisicao e \<and> retryCount < 2")
      case True
      let ?w2 = "esperar (1000 * (retryCount + 1)) ?w1"
      have u: "?F retryCount w = ?F (retryCount + 1) ?w2"
        using t na True by (subst fazerRequisicaoAutenticada.simps) simp
      have "tokenOk t ?w2" using ok1 by (simp add: tokenOk_def)
      from "1.IH"(2)[OF t[symmetric] refl na True login falham this] u show ?thesis by simp
    next
      case False
      then have "?F retryCount w = (Inl e, ?w1)"
        using t na by (subst fazerRequisicaoAutenticada.simps) auto
      then show ?thesis using ok1 by simp
    qed
  qed
qed

lemma consultar_estavel:
  assumes login: "\<forall>tr. \<exists>d. rede a tr ReqLogin = Resposta d \<and> tokenDaResposta d = Inr t"
    and falham: "\<forall>tr tok p. rootEntity p \<in> S \<longrightarrow> (\<exists>e. rede a tr (ReqConsulta URL_CONSULTA_SERVICO tok p) = Falha e)"
    and respondem: "\<forall>tr tok p. rootEntity p \<notin> S \<longrightarrow> rede a tr (ReqConsulta URL_CONSULTA_SERVICO tok p) = Resposta (resp (rootEntity p))"
    and ok: "tokenOk t w"
  shows "fst (fazerRequisicaoAutenticada a URL_CONSULTA_SERVICO p 0 w)
           = (if rootEntity p \<in> S then fst (fazerRequisicaoAutenticada a URL_CONSULTA_SERVICO p 0 w)
              else Inr (resp (rootEntity p)))"
    and "rootEntity p \<in> S \<Longrightarrow> isl (fst (fazerRequisicaoAutenticada a URL_CONSULTA_SERVICO p 0 w))"
    and "tokenOk t (snd (fazerRequisicaoAutenticada a URL_CONSULTA_SERVICO p 0 w))"
proof -
  have f: "rootEntity p \<in> S \<Longrightarrow> isl (fst (fazerRequisicaoAutenticada a URL_CONSULTA_SERVICO p 0 w)) \<and>
         tokenOk t (snd (fazerRequisicaoAutenticada a URL_CONSULTA_SERVICO p 0 w))"
    using fazer_falha[OF login _ ok, of URL_CONSULTA_SERVICO p 0] falham by blast
  have s: "rootEntity p \<notin> S \<Longrightarrow> fst (fazerRequisicaoAutenticada a URL_CONSULTA_SERVICO p 0 w) = Inr (resp (rootEntity p)) \<and>
         tokenOk t (snd (fazerRequisicaoAutenticada a URL_CONSULTA_SERVICO p 0 w))"
    using fazer_sucesso[OF login ok, of URL_CONSULTA_SERVICO p "resp (rootEntity p)" 0] respondem by blast
  show "fst (fazerRequisicaoAutenticada a URL_CONSULTA_SERVICO p 0 w)
           = (if rootEntity p \<in> S then fst (fazerRequisicaoAutenticada a URL_CONSULTA_SERVICO p 0 w)
              else Inr (resp (rootEntity p)))" using s by simp
  show "rootEntity p \<in> S \<Longrightarrow> isl (fst (fazerRequisicaoAutenticada a URL_CONSULTA_SERVICO p 0 w))"
    using f by simp
  show "tokenOk t (snd (fazerRequisicaoAutenticada a URL_CONSULTA_SERVICO p 0 w))"
    using f s by blast
qed

lemma entidadesDe_nulo: "entidadesDe JNull = Inr []"
  by (simp add: entidadesDe_def)

lemma consultarOuNulo_estavel:
  assumes login: "\<forall>tr. \<exists>d. rede a tr ReqLogin = Resposta d \<and> tokenDaResposta d = Inr t"
    and falham: "\<forall>tr tok p. rootEntity p \<in> S \<longrightarrow> (\<exists>e. rede a tr (ReqConsulta URL_CONSULTA_SERVICO tok p) = Falha e)"
    and respondem: "\<forall>tr tok p. rootEntity p \<notin> S \<longrightarrow> rede a tr (ReqConsulta URL_CONSULTA_SERVICO tok p) = Resposta (resp (rootEntity p))"
    and mapeiam: "\<forall>n \<in> set datasets. n \<notin> S \<longrightarrow> entidadesDe (resp n) = Inr (m n)"
    and ok: "tokenOk t w"
    and q: "consultarOuNulo a p w = (res, w1)"
    and n: "rootEntity p \<in> set datasets"
  shows "entidadesDe res = Inr (conjuntoEsperado S m (rootEntity p))" and "tokenOk t w1"
proof -
  note c = consultar_estavel[OF login falham respondem ok, of p]
  obtain r0 w0 where f: "fazerRequisicaoAutenticada a URL_CONSULTA_SERVICO p 0 w = (r0, w0)"
    by (cases "fazerRequisicaoAutenticada a URL_CONSULTA_SERVICO p 0 w")
  show "tokenOk t w1" using c(3) q f by (auto simp: consultarOuNulo_def split: sum.splits)
  show "entidadesDe res = Inr (conjuntoEsperado S m (rootEntity p))"
  proof (cases "rootEntity p \<in> S")
    case True
    then have "isl r0" using c(2) f by simp
    then have "res = JNull" using q f by (auto simp: consultarOuNulo_def split: sum.splits)
    then show ?thesis using True by (simp add: entidadesDe_nulo conjuntoEsperado_def)
  next
    case False
    then have "r0 = Inr (resp (rootEntity p))" using c(1) f by simp
    then have "res = resp (rootEntity p)" using q f by (simp add: consultarOuNulo_def)
    then show ?thesis using False mapeiam n by (simp add: conjuntoEsperado_def)
  qed
qed

lemma mapearEntidades_objetos: "mapearEntidades e = Inr rs \<Longrightarrow> list_all ehObjeto rs"
proof -
  have m: "mapear (limpar fns) xs = Inr ys \<Longrightarrow> list_all ehObjeto ys" for fns xs ys
  proof (induction xs arbitrary: ys)
    case Nil
    then show ?case by simp
  next
    case (Cons x xs)
    then show ?case
      by (auto simp: entao_def limpar_def ehObjeto_def split: sum.splits)
  qed
  assume "mapearEntidades e = Inr rs"
  then show ?thesis
    using m by (auto simp: mapearEntidades_def entao_def split: if_splits sum.splits)
qed

lemma entidadesDe_objetos: "entidadesDe res = Inr rs \<Longrightarrow> list_all ehObjeto rs"
  using mapearEntidades_objetos by (auto simp: entidadesDe_def Let_def split: if_splits)

lemma codigos_ok: "list_all ehObjeto ls \<Longrightarrow> \<exists>cods. mapear (\<lambda>l. obter l ''CODLEAD'') ls = Inr cods"
  by (intro mapear_ok) (auto simp: list_all_iff obter_definido ehObjeto_definido)

lemma buscarProdutosLeads_estavel:
  assumes login: "\<forall>tr. \<exists>d. rede a tr ReqLogin = Resposta d \<and> tokenDaResposta d = Inr t"
    and falham: "\<forall>tr tok p. rootEntity p \<in> S \<longrightarrow> (\<exists>e. rede a tr (ReqConsulta URL_CONSULTA_SERVICO tok p) = Falha e)"
    and respondem: "\<forall>tr tok p. rootEntity p \<notin> S \<longrightarrow> rede a tr (ReqConsulta URL_CONSULTA_SERVICO tok p) = Resposta (resp (rootEntity p))"
    and mapeiam: "\<forall>n \<in> set datasets. n \<notin> S \<longrightarrow> entidadesDe (resp n) = Inr (m n)"
    and ok: "tokenOk t w"
    and objs: "list_all ehObjeto ls"
  shows "ls = [] \<Longrightarrow> buscarProdutosLeads a ls w = (Inr [], w)"
    and "ls \<noteq> [] \<Longrightarrow> ''AD_ADLEADSPRODUTOS'' \<notin> S \<Longrightarrow>
           fst (buscarProdutosLeads a ls w) = Inr (m ''AD_ADLEADSPRODUTOS'')"
    and "ls \<noteq> [] \<Longrightarrow> ''AD_ADLEADSPRODUTOS'' \<in> S \<Longrightarrow> isl (fst (buscarProdutosLeads a ls w))"
proof -
  show "ls = [] \<Longrightarrow> buscarProdutosLeads a ls w = (Inr [], w)"
    by (simp add: buscarProdutosLeads_def)
  from codigos_ok[OF objs] obtain cods where cods: "mapear (\<lambda>l. obter l ''CODLEAD'') ls = Inr cods"
    by blast
  let ?p = "produtosLeadsPayload (juntar cods)"
  have re: "rootEntity ?p = ''AD_ADLEADSPRODUTOS''" by (simp add: produtosLeadsPayload_def)
  note c = consultar_estavel[OF login falham respondem ok, of ?p]
  obtain r0 w0 where f: "fazerRequisicaoAutenticada a URL_CONSULTA_SERVICO ?p 0 w = (r0, w0)"
    by (cases "fazerRequisicaoAutenticada a URL_CONSULTA_SERVICO ?p 0 w")
  {
    assume ne: "ls \<noteq> []" and nin: "''AD_ADLEADSPRODUTOS'' \<notin> S"
    then have "r0 = Inr (resp ''AD_ADLEADSPRODUTOS'')" using c(1) f re by simp
    moreover have "entidadesDe (resp ''AD_ADLEADSPRODUTOS'') = Inr (m ''AD_ADLEADSPRODUTOS'')"
      using mapeiam nin by (simp add: datasets_def)
    ultimately show "fst (buscarProdutosLeads a ls w) = Inr (m ''AD_ADLEADSPRODUTOS'')"
      using ne cods f by (simp add: buscarProdutosLeads_def)
  }
  {
    assume ne: "ls \<noteq> []" and "''AD_ADLEADSPRODUTOS'' \<in> S"
    then have "isl r0" using c(2) f re by simp
    then show "isl (fst (buscarProdutosLeads a ls w))"
      using ne cods f by (auto simp: buscarProdutosLeads_def split: sum.splits)
  }
qed

lemma redeFixa_login:
  "\<forall>tr. \<exists>d. rede (ambiente0 (redeFixa S e resp)) tr ReqLogin = Resposta d \<and> tokenDaResposta d = Inr (JStr ''tok-2'')"
  by (simp add: ambiente0_def redeFixa_def respostaLogin_def tokenDaResposta_def)

lemma redeFixa_falham:
  "\<forall>tr tok p. rootEntity p \<in> S \<longrightarrow> (\<exists>er. rede (ambiente0 (redeFixa S e resp)) tr (ReqConsulta URL_CONSULTA_SERVICO tok p) = Falha er)"
  by (simp add: ambiente0_def redeFixa_def)

lemma redeFixa_respondem:
  "\<forall>tr tok p. rootEntity p \<notin> S \<longrightarrow> rede (ambiente0 (redeFixa S e resp)) tr (ReqConsulta URL_CONSULTA_SERVICO tok p) = Resposta (resp (rootEntity p))"
  by (simp add: ambiente0_def redeFixa_def)

lemma mapeadosExemplo_ok:
  "\<forall>n \<in> set datasets. n \<notin> S \<longrightarrow> entidadesDe (respostaExemplo n) = Inr (mapeadosExemplo n)"
proof -
  have "list_all (\<lambda>n. entidadesDe (respostaExemplo n) = Inr (mapeadosExemplo n)) datasets"
    by code_simp
  then show ?thesis by (simp add: list_all_iff)
qed

text \<open>
  C1, as the code has it. Take a cache miss on a network that does not change, where the
  login works, the queries of the root entities in \<^verbatim>\<open>S\<close> fail and the others are
  answered with collections that map to \<^verbatim>\<open>m\<close>. Whatever \<^verbatim>\<open>S\<close> is, all seven
  primary datasets included, \<^verbatim>\<open>buscarDadosAnalise\<close> returns a snapshot in which each
  dataset whose query failed is the empty list and every other dataset holds its mapped
  records, provided that the query for the products of the leads is not sent (no lead
  was found) or does not fail. When leads were found and that query fails, the call
  throws.
\<close>

theorem buscarDadosAnalise_degrades_per_dataset:
  assumes miss: "redisGet w (cacheKey f userId) = None"
    and ok: "cachedToken w = None \<or> cachedToken w = Some t"
    and login: "\<forall>tr. \<exists>d. rede a tr ReqLogin = Resposta d \<and> tokenDaResposta d = Inr t"
    and falham: "\<forall>tr tok p. rootEntity p \<in> S \<longrightarrow> (\<exists>e. rede a tr (ReqConsulta URL_CONSULTA_SERVICO tok p) = Falha e)"
    and respondem: "\<forall>tr tok p. rootEntity p \<notin> S \<longrightarrow> rede a tr (ReqConsulta URL_CONSULTA_SERVICO tok p) = Resposta (resp (rootEntity p))"
    and mapeiam: "\<forall>n \<in> set datasets. n \<notin> S \<longrightarrow> entidadesDe (resp n) = Inr (m n)"
  shows "(conjuntoEsperado S m ''AD_LEADS'' = [] \<or> ''AD_ADLEADSPRODUTOS'' \<notin> S \<longrightarrow>
           (\<exists>r. fst (buscarDadosAnalise a f userId isAdmin w) = Inr r \<and>
                leads (analise r) = conjuntoEsperado S m ''AD_LEADS'' \<and>
                atividades (analise r) = conjuntoEsperado S m ''AD_ADLEADSATIVIDADES'' \<and>
                funis (analise r) = conjuntoEsperado S m ''AD_FUNIS'' \<and>
                estagiosFunis (analise r) = conjuntoEsperado S m ''AD_FUNISESTAGIOS'' \<and>
                pedidos (analise r) = conjuntoEsperado S m ''CabecalhoNota'' \<and>
                produtos (analise r) = conjuntoEsperado S m ''Produto'' \<and>
                clientes (analise r) = conjuntoEsperado S m ''Parceiro'' \<and>
                produtosLeads (analise r) =
                  (if conjuntoEsperado S m ''AD_LEADS'' = [] then [] else m ''AD_ADLEADSPRODUTOS'')))
       \<and> (conjuntoEsperado S m ''AD_LEADS'' \<noteq> [] \<and> ''AD_ADLEADSPRODUTOS'' \<in> S \<longrightarrow>
            isl (fst (buscarDadosAnalise a f userId isAdmin w)))"
proof -
  let ?D = "conjuntoEsperado S m"
  have ok0: "tokenOk t w" using ok by (simp add: tokenOk_def)
  obtain r1 w1 where q1: "consultarOuNulo a (leadsPayload f userId isAdmin) w = (r1, w1)"
    by (cases "consultarOuNulo a (leadsPayload f userId isAdmin) w")
  obtain r2 w2 where q2: "consultarOuNulo a (atividadesPayload f) w1 = (r2, w2)"
    by (cases "consultarOuNulo a (atividadesPayload f) w1")
  obtain r3 w3 where q3: "consultarOuNulo a funisPayload w2 = (r3, w3)"
    by (cases "consultarOuNulo a funisPayload w2")
  obtain r4 w4 where q4: "consultarOuNulo a estagiosPayload w3 = (r4, w4)"
    by (cases "consultarOuNulo a estagiosPayload w3")
  obtain r5 w5 where q5: "consultarOuNulo a (pedidosPayload f) w4 = (r5, w5)"
    by (cases "consultarOuNulo a (pedidosPayload f) w4")
  obtain r6 w6 where q6: "consultarOuNulo a produtosPayload w5 = (r6, w6)"
    by (cases "consultarOuNulo a produtosPayload w5")
  obtain r7 w7 where q7: "consultarOuNulo a clientesPayload w6 = (r7, w7)"
    by (cases "consultarOuNulo a clientesPayload w6")
  note E = consultarOuNulo_estavel[OF login falham respondem mapeiam]
  have e1: "entidadesDe r1 = Inr (?D ''AD_LEADS'')" and ok1: "tokenOk t w1"
    using E[OF ok0 q1] by (simp_all add: leadsPayload_def datasets_def)
  have e2: "entidadesDe r2 = Inr (?D ''AD_ADLEADSATIVIDADES'')" and ok2: "tokenOk t w2"
    using E[OF ok1 q2] by (simp_all add: atividadesPayload_def datasets_def)
  have e3: "entidadesDe r3 = Inr (?D ''AD_FUNIS'')" and ok3: "tokenOk t w3"
    using E[OF ok2 q3] by (simp_all add: funisPayload_def datasets_def)
  have e4: "entidadesDe r4 = Inr (?D ''AD_FUNISESTAGIOS'')" and ok4: "tokenOk t w4"
    using E[OF ok3 q4] by (simp_all add: estagiosPayload_def datasets_def)
  have e5: "entidadesDe r5 = Inr (?D ''CabecalhoNota'')" and ok5: "tokenOk t w5"
    using E[OF ok4 q5] by (simp_all add: pedidosPayload_def datasets_def)
  have e6: "entidadesDe r6 = Inr (?D ''Produto'')" and ok6: "tokenOk t w6"
    using E[OF ok5 q6] by (simp_all add: produtosPayload_def datasets_def)
  have e7: "entidadesDe r7 = Inr (?D ''Parceiro'')" and ok7: "tokenOk t w7"
    using E[OF ok6 q7] by (simp_all add: clientesPayload_def datasets_def)
  have b: "buscarDadosAnalise a f userId isAdmin w
            = aposConsultas a f userId r1 r2 r3 r4 r5 r6 r7 w7"
    using miss q1 q2 q3 q4 q5 q6 q7 by (simp add: buscarDadosAnalise_def)
  obtain rp wp where bp: "buscarProdutosLeads a (?D ''AD_LEADS'') w7 = (rp, wp)"
    by (cases "buscarProdutosLeads a (?D ''AD_LEADS'') w7")
  have ap: "aposConsultas a f userId r1 r2 r3 r4 r5 r6 r7 w7 =
        (case rp of
           Inl erro \<Rightarrow> (Inl erro, wp)
         | Inr pls \<Rightarrow>
             (case concluir a f userId (?D ''AD_LEADS'') pls (?D ''AD_FUNISESTAGIOS'') (?D ''AD_FUNIS'')
                     (?D ''AD_ADLEADSATIVIDADES'') (?D ''CabecalhoNota'') (?D ''Produto'') (?D ''Parceiro'') wp of
                (r, w2) \<Rightarrow> (Inr r, w2)))"
    using e1 e2 e3 e4 e5 e6 e7 bp by (simp add: aposConsultas_def)
  note P = buscarProdutosLeads_estavel[OF login falham respondem mapeiam ok7 entidadesDe_objetos[OF e1]]
  show ?thesis
  proof (intro conjI impI)
    assume h: "?D ''AD_LEADS'' = [] \<or> ''AD_ADLEADSPRODUTOS'' \<notin> S"
    have rp: "rp = Inr (if ?D ''AD_LEADS'' = [] then [] else m ''AD_ADLEADSPRODUTOS'')"
    proof (cases "?D ''AD_LEADS'' = []")
      case True
      then show ?thesis using P(1) bp by simp
    next
      case False
      then show ?thesis using P(2) h bp by simp
    qed
    obtain r w9 where c: "concluir a f userId (?D ''AD_LEADS'')
          (if ?D ''AD_LEADS'' = [] then [] else m ''AD_ADLEADSPRODUTOS'')
          (?D ''AD_FUNISESTAGIOS'') (?D ''AD_FUNIS'')
          (?D ''AD_ADLEADSATIVIDADES'') (?D ''CabecalhoNota'') (?D ''Produto'') (?D ''Parceiro'') wp = (r, w9)"
      by (cases "concluir a f userId (?D ''AD_LEADS'')
          (if ?D ''AD_LEADS'' = [] then [] else m ''AD_ADLEADSPRODUTOS'')
          (?D ''AD_FUNISESTAGIOS'') (?D ''AD_FUNIS'')
          (?D ''AD_ADLEADSATIVIDADES'') (?D ''CabecalhoNota'') (?D ''Produto'') (?D ''Parceiro'') wp")
    have "fst (buscarDadosAnalise a f userId isAdmin w) = Inr r"
      using b ap rp c by simp
    then show "\<exists>r. fst (buscarDadosAnalise a f userId isAdmin w) = Inr r \<and>
                leads (analise r) = ?D ''AD_LEADS'' \<and>
                atividades (analise r) = ?D ''AD_ADLEADSATIVIDADES'' \<and>
                funis (analise r) = ?D ''AD_FUNIS'' \<and>
                estagiosFunis (analise r) = ?D ''AD_FUNISESTAGIOS'' \<and>
                pedidos (analise r) = ?D ''CabecalhoNota'' \<and>
                produtos (analise r) = ?D ''Produto'' \<and>
                clientes (analise r) = ?D ''Parceiro'' \<and>
                produtosLeads (analise r) =
                  (if ?D ''AD_LEADS'' = [] then [] else m ''AD_ADLEADSPRODUTOS'')"
      using concluir_resultado(3)[OF c] by (intro exI[of _ r]) simp
  next
    assume h: "?D ''AD_LEADS'' \<noteq> [] \<and> ''AD_ADLEADSPRODUTOS'' \<in> S"
    then have "isl rp" using P(3) bp by simp
    then show "isl (fst (buscarDadosAnalise a f userId isAdmin w))"
      using b ap by (cases rp) simp_all
  qed
qed

text \<open>
  The theorem of C1 at three networks: only the activities query fails (the snapshot has
  the leads and no activities), every query fails (a snapshot of empty lists), and only
  the query for the products of the leads fails (the call throws).
\<close>

theorem buscarDadosAnalise_degrades_witness:
  "(\<exists>r. fst (buscarDadosAnalise ambSemAtividades janeiro 7 False mundoInicial) = Inr r \<and>
        leads (analise r) = mapeadosExemplo ''AD_LEADS'' \<and>
        atividades (analise r) = [] \<and>
        produtosLeads (analise r) = mapeadosExemplo ''AD_ADLEADSPRODUTOS'')
   \<and> (\<exists>r. fst (buscarDadosAnalise ambConsultasFalham janeiro 7 False mundoInicial) = Inr r \<and>
        leads (analise r) = [] \<and> atividades (analise r) = [] \<and> funis (analise r) = [] \<and>
        estagiosFunis (analise r) = [] \<and> pedidos (analise r) = [] \<and> produtos (analise r) = [] \<and>
        clientes (analise r) = [] \<and> produtosLeads (analise r) = [])
   \<and> isl (fst (buscarDadosAnalise ambSemProdutosLeads janeiro 7 False mundoInicial))"
proof -
  have tok: "cachedToken mundoInicial = None \<or> cachedToken mundoInicial = Some (JStr ''tok-2'')"
    by (simp add: mundoInicial_def)
  have l: "mapeadosExemplo ''AD_LEADS'' \<noteq> []" by (simp add: mapeadosExemplo_def)
  note A = buscarDadosAnalise_degrades_per_dataset[where w=mundoInicial and f=janeiro and userId=7 and isAdmin=False
        and S="{''AD_ADLEADSATIVIDADES''}" and m=mapeadosExemplo,
      OF miss_inicial tok redeFixa_login[of "{''AD_ADLEADSATIVIDADES''}" erro503 respostaExemplo]
         redeFixa_falham redeFixa_respondem mapeadosExemplo_ok, folded ambSemAtividades_def]
  note B = buscarDadosAnalise_degrades_per_dataset[where w=mundoInicial and f=janeiro and userId=7 and isAdmin=False
        and S=UNIV and m=mapeadosExemplo,
      OF miss_inicial tok redeFixa_login[of UNIV erroTimeout respostaExemplo]
         redeFixa_falham redeFixa_respondem mapeadosExemplo_ok, folded ambConsultasFalham_def]
  note C = buscarDadosAnalise_degrades_per_dataset[where w=mundoInicial and f=janeiro and userId=7 and isAdmin=False
        and S="{''AD_ADLEADSPRODUTOS''}" and m=mapeadosExemplo,
      OF miss_inicial tok redeFixa_login[of "{''AD_ADLEADSPRODUTOS''}" erro503 respostaExemplo]
         redeFixa_falham redeFixa_respondem mapeadosExemplo_ok, folded ambSemProdutosLeads_def]
  from A l have a: "\<exists>r. fst (buscarDadosAnalise ambSemAtividades janeiro 7 False mundoInicial) = Inr r \<and>
        leads (analise r) = mapeadosExemplo ''AD_LEADS'' \<and>
        atividades (analise r) = [] \<and>
        produtosLeads (analise r) = mapeadosExemplo ''AD_ADLEADSPRODUTOS''"
    by (auto simp: conjuntoEsperado_def)
  from B have b: "\<exists>r. fst (buscarDadosAnalise ambConsultasFalham janeiro 7 False mundoInicial) = Inr r \<and>
        leads (analise r) = [] \<and> atividades (analise r) = [] \<and> funis (analise r) = [] \<and>
        estagiosFunis (analise r) = [] \<and> pedidos (analise r) = [] \<and> produtos (analise r) = [] \<and>
        clientes (analise r) = [] \<and> produtosLeads (analise r) = []"
    by (auto simp: conjuntoEsperado_def)
  from C l have c: "isl (fst (buscarDadosAnalise ambSemProdutosLeads janeiro 7 False mundoInicial))"
    by (simp add: conjuntoEsperado_def)
  from a b c show ?thesis by blast
qed

text \<open>
  C1 as the specification states it fails: on a network where the login works and every
  query times out, each dataset query fails (21 requests are sent, 3 per primary
  dataset), and \<^verbatim>\<open>buscarDadosAnalise\<close> returns a snapshot of empty lists instead of
  throwing.
\<close>

theorem buscarDadosAnalise_all_fail_still_returns:
  "isl (fst (fazerRequisicaoAutenticada ambConsultasFalham URL_CONSULTA_SERVICO (leadsPayload janeiro 7 False) 0 mundoInicial))
   \<and> consultas (eventos (snd (buscarDadosAnalise ambConsultasFalham janeiro 7 False mundoInicial))) = 21
   \<and> fst (buscarDadosAnalise ambConsultasFalham janeiro 7 False mundoInicial)
       = Inr \<lparr>analise = \<lparr>leads = [], produtosLeads = [], estagiosFunis = [], funis = [],
                           atividades = [], pedidos = [], produtos = [], clientes = [],
                           financeiro = [], filtro = janeiro, timestamp = relogioExemplo 1\<rparr>,
               metricas = Some \<lparr>totalLeads = 0, totalAtividades = 0, totalPedidos = 0,
                                totalProdutos = 0, totalClientes = 0, totalFinanceiro = 0,
                                valorTotalPedidos = 0, valorTotalFinanceiro = 0,
                                valorRecebido = 0, valorPendente = 0\<rparr>\<rparr>"
  by code_simp

subsection \<open>The cache\<close>






subsection \<open>The criteria of the leads query\<close>

lemma temPar_Cons: "temPar a b (x # xs) = ((xs \<noteq> [] \<and> x = a \<and> hd xs = b) \<or> temPar a b xs)"
  by (cases xs) auto

lemma temPar_append:
  "temPar a b (xs @ ys) = (temPar a b xs \<or> temPar a b ys \<or> (xs \<noteq> [] \<and> ys \<noteq> [] \<and> last xs = a \<and> hd ys = b))"
proof (induction xs)
  case Nil
  then show ?case by simp
next
  case (Cons x xs)
  then show ?case by (cases xs) (auto simp: temPar_Cons)
qed

lemma temPar_set: "temPar a b xs \<Longrightarrow> a \<in> set xs"
  by (induction a b xs rule: temPar.induct) auto

lemma sublist_temPar: "sublist (a # b # r) ys \<Longrightarrow> temPar a b ys"
  by (auto simp: sublist_def temPar_append)

lemma dividir_partes: "\<forall>p \<in> set (dividir sep s). set p \<subseteq> set s"
proof (induction s)
  case Nil
  then show ?case by simp
next
  case (Cons c cs)
  show ?case
  proof (cases "c = sep")
    case True
    then show ?thesis using Cons by auto
  next
    case False
    show ?thesis
    proof (cases "dividir sep cs")
      case Nil
      then show ?thesis using False by simp
    next
      case (Cons q qs)
      then have "set q \<subseteq> set cs" "\<forall>p \<in> set qs. set p \<subseteq> set cs"
        using Cons.IH by simp_all
      then show ?thesis using False Cons by auto
    qed
  qed
qed

lemma parte_sem:
  assumes "x \<notin> set s" "x \<notin> set ''undefined''"
  shows "x \<notin> set (parte i (dividir sep s))"
proof (cases "i < length (dividir sep s)")
  case True
  then have "set (dividir sep s ! i) \<subseteq> set s" using dividir_partes by (metis nth_mem)
  then show ?thesis using assms(1) True by (auto simp: parte_def)
next
  case False
  then show ?thesis using assms(2) by (simp add: parte_def)
qed

lemma formatar_sem_C: "CHR ''C'' \<notin> set s \<Longrightarrow> CHR ''C'' \<notin> set (formatarDataParaSankhya s)"
  using parte_sem[of "CHR ''C''" s] by (simp add: formatarDataParaSankhya_def Let_def)

lemma C_nao_digito: "\<not> ehDigito (CHR ''C'')"
  by (simp add: ehDigito_def)

lemma digitos_sem_C: "list_all ehDigito xs \<Longrightarrow> CHR ''C'' \<notin> set xs"
  using C_nao_digito by (induction xs) auto

lemma dataISO_partes:
  assumes "length s = 10"
  shows "s = take 4 s @ s ! 4 # take 2 (drop 5 s) @ s ! 7 # drop 8 s"
proof -
  have "Suc 4 = 5" "Suc 7 = 8" by simp_all
  then have a: "drop 4 s = s ! 4 # drop 5 s" and c: "drop 7 s = s ! 7 # drop 8 s"
    using Cons_nth_drop_Suc[of 4 s] Cons_nth_drop_Suc[of 7 s] assms by simp_all
  have b: "drop 5 s = take 2 (drop 5 s) @ drop 7 s"
    using append_take_drop_id[of 2 "drop 5 s"] by simp
  have "s = take 4 s @ drop 4 s" by simp
  also have "\<dots> = take 4 s @ s ! 4 # drop 5 s" by (simp only: a)
  also have "\<dots> = take 4 s @ s ! 4 # take 2 (drop 5 s) @ drop 7 s" using b by simp
  also have "\<dots> = take 4 s @ s ! 4 # take 2 (drop 5 s) @ s ! 7 # drop 8 s" by (simp only: c)
  finally show ?thesis .
qed

lemma dataISO_sem_C:
  assumes "dataISO s"
  shows "CHR ''C'' \<notin> set s"
proof -
  have l: "length s = 10" using assms by (simp add: dataISO_def)
  have "set s = set (take 4 s @ s ! 4 # take 2 (drop 5 s) @ s ! 7 # drop 8 s)"
    using dataISO_partes[OF l] by simp
  moreover have "CHR ''C'' \<notin> set (take 4 s)" "CHR ''C'' \<notin> set (take 2 (drop 5 s))"
    "CHR ''C'' \<notin> set (drop 8 s)" "s ! 4 \<noteq> CHR ''C''" "s ! 7 \<noteq> CHR ''C''"
    using assms digitos_sem_C by (simp_all add: dataISO_def)
  ultimately show ?thesis by auto
qed

lemma sem_par: "a \<notin> set xs \<Longrightarrow> \<not> temPar a b xs"
  using temPar_set by blast

lemma buscar_comeca_com_leads:
  assumes "redisGet w (cacheKey f userId) = None" "cachedToken w = Some t"
  shows "prefix (eventos w @ [Enviou (ReqConsulta URL_CONSULTA_SERVICO t (leadsPayload f userId isAdmin))])
           (eventos (snd (buscarDadosAnalise a f userId isAdmin w)))"
proof -
  let ?p = "leadsPayload f userId isAdmin"
  obtain r1 w1 where q1: "consultarOuNulo a ?p w = (r1, w1)" by (cases "consultarOuNulo a ?p w")
  obtain r0 w0 where t0: "tentarRequisicao a URL_CONSULTA_SERVICO ?p w = (r0, w0)"
    by (cases "tentarRequisicao a URL_CONSULTA_SERVICO ?p w")
  have "eventos w0 = eventos w @ [Enviou (ReqConsulta URL_CONSULTA_SERVICO t ?p)]"
    using t0 tentarRequisicao_cached[OF assms(2), of a URL_CONSULTA_SERVICO ?p]
    by (auto split: desfecho.splits)
  moreover have "w1 = snd (fazerRequisicaoAutenticada a URL_CONSULTA_SERVICO ?p 0 w)"
    using q1 by (auto simp: consultarOuNulo_def split: prod.splits sum.splits)
  ultimately have p1: "prefix (eventos w @ [Enviou (ReqConsulta URL_CONSULTA_SERVICO t ?p)]) (eventos w1)"
    using fazer_apos_tentativa[OF t0, of 0] by simp
  obtain r2 w2 where q2: "consultarOuNulo a (atividadesPayload f) w1 = (r2, w2)"
    by (cases "consultarOuNulo a (atividadesPayload f) w1")
  obtain r3 w3 where q3: "consultarOuNulo a funisPayload w2 = (r3, w3)"
    by (cases "consultarOuNulo a funisPayload w2")
  obtain r4 w4 where q4: "consultarOuNulo a estagiosPayload w3 = (r4, w4)"
    by (cases "consultarOuNulo a estagiosPayload w3")
  obtain r5 w5 where q5: "consultarOuNulo a (pedidosPayload f) w4 = (r5, w5)"
    by (cases "consultarOuNulo a (pedidosPayload f) w4")
  obtain r6 w6 where q6: "consultarOuNulo a produtosPayload w5 = (r6, w6)"
    by (cases "consultarOuNulo a produtosPayload w5")
  obtain r7 w7 where q7: "consultarOuNulo a clientesPayload w6 = (r7, w7)"
    by (cases "consultarOuNulo a clientesPayload w6")
  obtain res w8 where ap: "aposConsultas a f userId r1 r2 r3 r4 r5 r6 r7 w7 = (res, w8)"
    by (cases "aposConsultas a f userId r1 r2 r3 r4 r5 r6 r7 w7")
  have b: "buscarDadosAnalise a f userId isAdmin w = (res, w8)"
    using assms(1) q1 q2 q3 q4 q5 q6 q7 ap by (simp add: buscarDadosAnalise_def)
  have "estende consultaConhecida w1 w7"
  proof -
    have "estende consultaConhecida w1 w2" "estende consultaConhecida w2 w3"
      "estende consultaConhecida w3 w4" "estende consultaConhecida w4 w5"
      "estende consultaConhecida w5 w6" "estende consultaConhecida w6 w7"
      using q2 q3 q4 q5 q6 q7 payloads_conhecidos[of f userId isAdmin]
      by (auto intro: consultarOuNulo_estende)
    then show ?thesis by (meson estende_trans)
  qed
  then have "prefix (eventos w1) (eventos w7)" by (auto simp: estende_def)
  moreover have "prefix (eventos w7) (eventos w8)"
    using aposConsultas_propriedades(1)[OF ap] by auto
  ultimately show ?thesis using p1 b by (auto intro: prefix_order.trans)
qed

text \<open>
  C9, as the code has it. For every filter and every user, the criteria of the leads
  query contain the clause \<^verbatim>\<open>CODUSUARIO = userId\<close> when \<^verbatim>\<open>isAdmin\<close> is false.
  When \<^verbatim>\<open>isAdmin\<close> is true, they do not contain it if both dates of the filter are
  written \<^verbatim>\<open>YYYY-MM-DD\<close>. On a cache miss with a token in the cache, the query with
  these criteria is the first request that \<^verbatim>\<open>buscarDadosAnalise\<close> sends.
\<close>

theorem leads_criteria_user_clause:
  "(\<not> isAdmin \<longrightarrow> sublist (clausulaUsuario userId) (criteria (leadsPayload f userId isAdmin)))
   \<and> (isAdmin \<and> dataISO (dataInicio f) \<and> dataISO (dataFim f)
        \<longrightarrow> \<not> sublist (clausulaUsuario userId) (criteria (leadsPayload f userId isAdmin)))
   \<and> (redisGet w (cacheKey f userId) = None \<and> cachedToken w = Some t \<longrightarrow>
        prefix (eventos w @ [Enviou (ReqConsulta URL_CONSULTA_SERVICO t (leadsPayload f userId isAdmin))])
          (eventos (snd (buscarDadosAnalise a f userId isAdmin w))))"
proof (intro conjI impI)
  assume "\<not> isAdmin"
  then have "criteria (leadsPayload f userId isAdmin)
          = (''DATA_CRIACAO BETWEEN '' @ entreAspas (formatarDataParaSankhya (dataInicio f))
              @ '' AND '' @ entreAspas (formatarDataParaSankhya (dataFim f))
              @ '' AND ATIVO = '' @ entreAspas ''S'' @ '' AND '') @ clausulaUsuario userId @ []"
    by (simp add: leadsPayload_def criteriaLeads_def clausulaUsuario_def)
  then show "sublist (clausulaUsuario userId) (criteria (leadsPayload f userId isAdmin))"
    unfolding sublist_def by blast
next
  assume h: "isAdmin \<and> dataISO (dataInicio f) \<and> dataISO (dataFim f)"
  let ?i = "formatarDataParaSankhya (dataInicio f)" and ?f = "formatarDataParaSankhya (dataFim f)"
  have i: "CHR ''C'' \<notin> set ?i" and f: "CHR ''C'' \<notin> set ?f"
    using h dataISO_sem_C formatar_sem_C by blast+
  have "\<not> temPar (CHR ''C'') (CHR ''O'') (criteria (leadsPayload f userId True))"
    using sem_par[OF i, of "CHR ''O''"] sem_par[OF f, of "CHR ''O''"] i f
    by (simp add: leadsPayload_def criteriaLeads_def entreAspas_def temPar_append temPar_Cons del: temPar.simps(1))
  moreover have "clausulaUsuario userId = CHR ''C'' # CHR ''O'' # (''DUSUARIO = '' @ decimal userId)"
    by (simp add: clausulaUsuario_def)
  ultimately have "\<not> sublist (clausulaUsuario userId) (criteria (leadsPayload f userId True))"
    using sublist_temPar by metis
  with h show "\<not> sublist (clausulaUsuario userId) (criteria (leadsPayload f userId isAdmin))"
    by simp
next
  assume "redisGet w (cacheKey f userId) = None \<and> cachedToken w = Some t"
  then show "prefix (eventos w @ [Enviou (ReqConsulta URL_CONSULTA_SERVICO t (leadsPayload f userId isAdmin))])
          (eventos (snd (buscarDadosAnalise a f userId isAdmin w)))"
    using buscar_comeca_com_leads by blast
qed

text \<open>
  The theorem of C9 for January 2024 and the user 7, as an administrator and not.
\<close>

theorem leads_criteria_user_clause_witness:
  "clausulaUsuario 7 = ''CODUSUARIO = 7''
   \<and> sublist (clausulaUsuario 7) (criteria (leadsPayload janeiro 7 False))
   \<and> \<not> sublist (clausulaUsuario 7) (criteria (leadsPayload janeiro 7 True))
   \<and> prefix [Enviou (ReqConsulta URL_CONSULTA_SERVICO (JStr ''tok-1'') (leadsPayload janeiro 7 False))]
        (eventos (snd (buscarDadosAnalise ambSemAtividades janeiro 7 False mundoComToken)))"
proof -
  have h: "dataISO (dataInicio janeiro)" "dataISO (dataFim janeiro)"
    by (simp_all add: janeiro_def dataISO_def ehDigito_def)
  have m: "redisGet mundoComToken (cacheKey janeiro 7) = None"
    "cachedToken mundoComToken = Some (JStr ''tok-1'')" "eventos mundoComToken = []"
    by (simp_all add: redisGet_def mundoComToken_def)
  have "clausulaUsuario 7 = ''CODUSUARIO = 7''" by code_simp
  then show ?thesis
    using leads_criteria_user_clause[where f=janeiro and userId=7 and isAdmin=False and w=mundoComToken and t="JStr ''tok-1''" and a=ambSemAtividades]
      leads_criteria_user_clause[where f=janeiro and userId=7 and isAdmin=True and w=mundoComToken and t="JStr ''tok-1''" and a=ambSemAtividades] h m
    by simp
qed

text \<open>
  C9 as the specification states it fails: the dates of the filter go into the criteria
  as they come. For an administrator and a filter whose start date is the text
  \<^verbatim>\<open>CODUSUARIO = 7\<close>, the criteria of the leads query contain the clause of the
  user 7, and the query with these criteria is the one sent.
\<close>

theorem leads_criteria_clause_from_date_text:
  "criteria (leadsPayload filtroComClausula 7 True)
     = ''DATA_CRIACAO BETWEEN '' @ entreAspas ''undefined/undefined/CODUSUARIO = 7''
         @ '' AND '' @ entreAspas ''31/01/2024'' @ '' AND ATIVO = '' @ entreAspas ''S''
   \<and> sublist (clausulaUsuario 7) (criteria (leadsPayload filtroComClausula 7 True))
   \<and> prefix [Enviou (ReqConsulta URL_CONSULTA_SERVICO (JStr ''tok-1'') (leadsPayload filtroComClausula 7 True))]
        (eventos (snd (buscarDadosAnalise ambSemAtividades filtroComClausula 7 True mundoComToken)))"
proof -
  have c: "criteria (leadsPayload filtroComClausula 7 True)
     = ''DATA_CRIACAO BETWEEN '' @ entreAspas ''undefined/undefined/CODUSUARIO = 7''
         @ '' AND '' @ entreAspas ''31/01/2024'' @ '' AND ATIVO = '' @ entreAspas ''S''"
    by code_simp
  have "criteria (leadsPayload filtroComClausula 7 True)
     = (''DATA_CRIACAO BETWEEN '' @ [CHR 0x27] @ ''undefined/undefined/'') @ clausulaUsuario 7
         @ ([CHR 0x27] @ '' AND '' @ entreAspas ''31/01/2024'' @ '' AND ATIVO = '' @ entreAspas ''S'')"
    by code_simp
  then have s: "sublist (clausulaUsuario 7) (criteria (leadsPayload filtroComClausula 7 True))"
    unfolding sublist_def by blast
  have m: "redisGet mundoComToken (cacheKey filtroComClausula 7) = None"
    "cachedToken mundoComToken = Some (JStr ''tok-1'')" "eventos mundoComToken = []"
    by (simp_all add: redisGet_def mundoComToken_def)
  from buscar_comeca_com_leads[OF m(1,2), of True ambSemAtividades] m(3)
  have "prefix [Enviou (ReqConsulta URL_CONSULTA_SERVICO (JStr ''tok-1'') (leadsPayload filtroComClausula 7 True))]
        (eventos (snd (buscarDadosAnalise ambSemAtividades filtroComClausula 7 True mundoComToken)))"
    by simp
  with c s show ?thesis by blast
qed

section \<open>Properties of obterToken with several callers\<close>

lemma dez_chamadas_um_login:
  "logins (eventos (executar agendaDezChamadas processoInicial)) = 1
   \<and> cachedToken (executar agendaDezChamadas processoInicial) = Some (JStr ''tok-2'')
   \<and> fst (chamarObterToken 0 (executar (replicate 9 Chamada) processoInicial)) = Promessa 0"
  by code_simp

text \<open>
  C6 fails in the code on the retry path. After a login request that timed out and the
  delay of 2000 ms, the retry has a login request in flight while \<^verbatim>\<open>tokenPromise\<close> is
  \<^verbatim>\<open>null\<close> (the \<^verbatim>\<open>finally\<close> of the acquisition that ended has cleared it). A caller
  that calls \<^verbatim>\<open>obterToken()\<close> now does not await that acquisition: it starts one of its
  own, and two login requests are in flight at once; three were sent in all.
\<close>

theorem obterToken_retry_breaks_single_flight:
  "emVoo (executar agendaComRetry processoInicial) = 1
   \<and> cachedToken (executar agendaComRetry processoInicial) = None
   \<and> tokenPromise (executar agendaComRetry processoInicial) = None
   \<and> fst (chamarObterToken 0 (executar agendaComRetry processoInicial)) = Promessa 2
   \<and> emVoo (executar (agendaComRetry @ [Chamada, Import 2]) processoInicial) = 2
   \<and> logins (eventos (executar (agendaComRetry @ [Chamada, Import 2]) processoInicial)) = 3"
  by code_simp

end
